theory Spec2Isabelle
  imports Main
begin

section \<open>Data model\<close>

text \<open>
  The handler of \<^verbatim>\<open>GetSubscriptionsFeed/handler.ts\<close> works on ECMAScript \<^verbatim>\<open>Set\<close>s of
  fiscal-code hashes. Such a set holds every value at most once and iterates
  (\<^verbatim>\<open>forEach\<close>) in insertion order, so it is modelled as the type of duplicate-free
  lists, the list being the insertion order.
\<close>

type_synonym FiscalCodeHash = string

typedef 'a ES6Set = "{xs :: 'a list. distinct xs}"
  morphisms values_of Abs_ES6Set
proof
  show "[] \<in> {xs :: 'a list. distinct xs}" by simp
qed

setup_lifting type_definition_ES6Set

text \<open>\<^verbatim>\<open>new Set()\<close>, \<^verbatim>\<open>s.add(x)\<close> (a value already present keeps its place) and
  \<^verbatim>\<open>s.has(x)\<close>.\<close>

lift_definition new_Set :: "'a ES6Set" is "[]"
  by simp

lift_definition add :: "'a \<Rightarrow> 'a ES6Set \<Rightarrow> 'a ES6Set"
  is "\<lambda>x xs. if x \<in> set xs then xs else xs @ [x]"
  by simp

definition has :: "'a ES6Set \<Rightarrow> 'a \<Rightarrow> bool" where
  "has s x = (x \<in> set (values_of s))"

text \<open>The members of a set, insertion order forgotten.\<close>

definition members :: "'a ES6Set \<Rightarrow> 'a set" where
  "members s = set (values_of s)"

text \<open>The \<^verbatim>\<open>Set\<close> built by adding the elements of a list from left to right.\<close>

definition Set_of :: "'a list \<Rightarrow> 'a ES6Set" where
  "Set_of xs = fold add xs new_Set"

text \<open>Two sets are the same when they hold the same values in the same order.\<close>

instantiation ES6Set :: (equal) equal
begin

definition equal_ES6Set :: "'a ES6Set \<Rightarrow> 'a ES6Set \<Rightarrow> bool" where
  "equal_ES6Set s t = (values_of s = values_of t)"

instance
  by standard (simp add: equal_ES6Set_def values_of_inject)

end

record SubscriptionsFeed =
  dateUTC :: string
  subscriptions :: "FiscalCodeHash list"
  unsubscriptions :: "FiscalCodeHash list"

text \<open>
  The two responses the handler builds itself. A rejected promise (an exception thrown by
  an awaited call) is the left summand of the handler's result, see below.
\<close>

datatype Response =
    ResponseErrorNotFound string string
  | ResponseSuccessJson SubscriptionsFeed

section \<open>Time values\<close>

text \<open>
  \<^verbatim>\<open>new Date(`${subscriptionsDateUTC}T00:00:00Z`).getTime()\<close> is a number of milliseconds
  since the epoch, or \<^verbatim>\<open>NaN\<close> when the string is not a date. A time value is modelled
  as \<open>int option\<close>, \<open>None\<close> standing for \<^verbatim>\<open>NaN\<close>. The day arithmetic is that of
  ECMA-262 (Day Number and Time within Day, Year Number, Month Number, MakeDay, MakeDate).
\<close>

definition msPerDay :: int where
  "msPerDay = 86400000"

definition DayFromYear :: "int \<Rightarrow> int" where
  "DayFromYear y =
     365 * (y - 1970) + (y - 1969) div 4 - (y - 1901) div 100 + (y - 1601) div 400"

definition InLeapYear :: "int \<Rightarrow> bool" where
  "InLeapYear y =
     (if y mod 4 \<noteq> 0 then False else if y mod 100 \<noteq> 0 then True
      else if y mod 400 \<noteq> 0 then False else True)"

text \<open>Day within the year of the first day of month \<open>m\<close>, January being month 0.\<close>

definition MonthStart :: "bool \<Rightarrow> int \<Rightarrow> int" where
  "MonthStart leap m =
     (let l = (if leap then 1 else 0) in
      if m = 0 then 0 else if m = 1 then 31 else if m = 2 then 59 + l
      else if m = 3 then 90 + l else if m = 4 then 120 + l else if m = 5 then 151 + l
      else if m = 6 then 181 + l else if m = 7 then 212 + l else if m = 8 then 243 + l
      else if m = 9 then 273 + l else if m = 10 then 304 + l else 334 + l)"

definition MakeDay :: "int \<Rightarrow> int \<Rightarrow> int \<Rightarrow> int" where
  "MakeDay year month date =
     DayFromYear year + MonthStart (InLeapYear year) month + date - 1"

definition MakeTime :: "int \<Rightarrow> int \<Rightarrow> int \<Rightarrow> int \<Rightarrow> int" where
  "MakeTime hour minute sec ms = hour * 3600000 + minute * 60000 + sec * 1000 + ms"

definition MakeDate :: "int \<Rightarrow> int \<Rightarrow> int" where
  "MakeDate day time = day * msPerDay + time"

definition digit_val :: "char \<Rightarrow> int option" where
  "digit_val c =
     (let n = (of_char c :: nat) in if 48 \<le> n \<and> n \<le> 57 then Some (int n - 48) else None)"

fun number_of_digits :: "string \<Rightarrow> int option" where
  "number_of_digits [] = None"
| "number_of_digits cs =
     fold (\<lambda>c acc. case (acc, digit_val c) of (Some a, Some d) \<Rightarrow> Some (10 * a + d) | _ \<Rightarrow> None)
       cs (Some 0)"

text \<open>
  \<^verbatim>\<open>Date.parse\<close>. A string of the date-time form \<^verbatim>\<open>YYYY-MM-DDTHH:mm:ssZ\<close>, which is what
  the handler builds from a date parameter of the shape \<^verbatim>\<open>YYYY-MM-DD\<close>, is read field by
  field. The field ranges are those of the V8 engine the functions run on: a month from 1
  to 12 and a day from 1 to 31 whatever the month, a day beyond the month's end rolling over
  into the next month; a field out of range gives \<^verbatim>\<open>NaN\<close>. What the engine makes of any
  other string (the expanded-year form such as \<^verbatim>\<open>+002021-05-01T00:00:00Z\<close>, the formats
  of its fallback parser) is implementation-defined and is a parameter of the model,
  \<open>other_formats\<close>.
\<close>

fun Date_parse :: "(string \<Rightarrow> int option) \<Rightarrow> string \<Rightarrow> int option" where
  "Date_parse other_formats
       [y1, y2, y3, y4, d1, m1, m2, d2, a1, a2, t, h1, h2, c1, i1, i2, c2, s1, s2, z] =
     (if d1 = CHR ''-'' \<and> d2 = CHR ''-'' \<and> t = CHR ''T'' \<and> c1 = CHR '':'' \<and> c2 = CHR '':''
         \<and> z = CHR ''Z''
      then (case (number_of_digits [y1, y2, y3, y4], number_of_digits [m1, m2],
                  number_of_digits [a1, a2], number_of_digits [h1, h2],
                  number_of_digits [i1, i2], number_of_digits [s1, s2]) of
              (Some year, Some month, Some day, Some hour, Some minute, Some sec) \<Rightarrow>
                if 1 \<le> month \<and> month \<le> 12 \<and> 1 \<le> day \<and> day \<le> 31
                   \<and> (hour \<le> 23 \<or> hour = 24 \<and> minute = 0 \<and> sec = 0)
                   \<and> minute \<le> 59 \<and> sec \<le> 59
                then Some (MakeDate (MakeDay year (month - 1) day) (MakeTime hour minute sec 0))
                else None
            | _ \<Rightarrow>
                other_formats
                  [y1, y2, y3, y4, d1, m1, m2, d2, a1, a2, t, h1, h2, c1, i1, i2, c2, s1, s2, z])
      else other_formats
             [y1, y2, y3, y4, d1, m1, m2, d2, a1, a2, t, h1, h2, c1, i1, i2, c2, s1, s2, z])"
| "Date_parse other_formats s = other_formats s"

text \<open>\<^verbatim>\<open>Date.prototype.toUTCString\<close>: the calendar fields of a time value, then their layout.\<close>

definition Day :: "int \<Rightarrow> int" where
  "Day t = t div msPerDay"

definition WeekDay :: "int \<Rightarrow> int" where
  "WeekDay t = (Day t + 4) mod 7"

text \<open>
  The year a day number falls in, by the cycles of 400, 100, 4 and 1 years counted from
  1 January of year 1 (day number \<open>- 719162\<close>).
\<close>

definition YearFromDay :: "int \<Rightarrow> int" where
  "YearFromDay d =
     (let n = d + 719162;
          q400 = n div 146097; r400 = n mod 146097;
          q100 = min 3 (r400 div 36524); r100 = r400 - q100 * 36524;
          q4 = r100 div 1461; r4 = r100 mod 1461;
          q1 = min 3 (r4 div 365)
      in 1 + 400 * q400 + 100 * q100 + 4 * q4 + q1)"

definition YearFromTime :: "int \<Rightarrow> int" where
  "YearFromTime t = YearFromDay (Day t)"

definition DayWithinYear :: "int \<Rightarrow> int" where
  "DayWithinYear t = Day t - DayFromYear (YearFromTime t)"

definition MonthFromTime :: "int \<Rightarrow> int" where
  "MonthFromTime t =
     (let d = DayWithinYear t; leap = InLeapYear (YearFromTime t) in
      if d < MonthStart leap 1 then 0 else if d < MonthStart leap 2 then 1
      else if d < MonthStart leap 3 then 2 else if d < MonthStart leap 4 then 3
      else if d < MonthStart leap 5 then 4 else if d < MonthStart leap 6 then 5
      else if d < MonthStart leap 7 then 6 else if d < MonthStart leap 8 then 7
      else if d < MonthStart leap 9 then 8 else if d < MonthStart leap 10 then 9
      else if d < MonthStart leap 11 then 10 else 11)"

definition DateFromTime :: "int \<Rightarrow> int" where
  "DateFromTime t =
     DayWithinYear t - MonthStart (InLeapYear (YearFromTime t)) (MonthFromTime t) + 1"

definition HourFromTime :: "int \<Rightarrow> int" where
  "HourFromTime t = (t div 3600000) mod 24"

definition MinFromTime :: "int \<Rightarrow> int" where
  "MinFromTime t = (t div 60000) mod 60"

definition SecFromTime :: "int \<Rightarrow> int" where
  "SecFromTime t = (t div 1000) mod 60"

fun decimal :: "nat \<Rightarrow> string" where
  "decimal n =
     (if n < 10 then [''0123456789'' ! n]
      else decimal (n div 10) @ [''0123456789'' ! (n mod 10)])"

declare decimal.simps [simp del]

definition padStart :: "nat \<Rightarrow> char \<Rightarrow> string \<Rightarrow> string" where
  "padStart n c s = replicate (n - length s) c @ s"

definition DayName :: "int \<Rightarrow> string" where
  "DayName w = [''Sun'', ''Mon'', ''Tue'', ''Wed'', ''Thu'', ''Fri'', ''Sat''] ! nat w"

definition MonthName :: "int \<Rightarrow> string" where
  "MonthName m =
     [''Jan'', ''Feb'', ''Mar'', ''Apr'', ''May'', ''Jun'', ''Jul'', ''Aug'', ''Sep'', ''Oct'',
      ''Nov'', ''Dec''] ! nat m"

definition YearString :: "int \<Rightarrow> string" where
  "YearString y = (if 0 \<le> y then [] else ''-'') @ padStart 4 (CHR ''0'') (decimal (nat \<bar>y\<bar>))"

definition two_digits :: "int \<Rightarrow> string" where
  "two_digits n = padStart 2 (CHR ''0'') (decimal (nat n))"

definition toUTCString :: "int option \<Rightarrow> string" where
  "toUTCString tv =
     (case tv of
        None \<Rightarrow> ''Invalid Date''
      | Some t \<Rightarrow>
          DayName (WeekDay t) @ '', '' @ two_digits (DateFromTime t) @ '' ''
            @ MonthName (MonthFromTime t) @ '' '' @ YearString (YearFromTime t) @ '' ''
            @ two_digits (HourFromTime t) @ '':'' @ two_digits (MinFromTime t) @ '':''
            @ two_digits (SecFromTime t) @ '' GMT'')"

text \<open>Addition and comparison of numbers, either of which may be \<^verbatim>\<open>NaN\<close>: a sum with
  \<^verbatim>\<open>NaN\<close> is \<^verbatim>\<open>NaN\<close>, and every comparison with \<^verbatim>\<open>NaN\<close> is false.\<close>

definition num_add :: "int option \<Rightarrow> int option \<Rightarrow> int option" where
  "num_add a b = (case (a, b) of (Some x, Some y) \<Rightarrow> Some (x + y) | _ \<Rightarrow> None)"

definition num_less :: "int option \<Rightarrow> int option \<Rightarrow> bool" where
  "num_less a b = (case (a, b) of (Some x, Some y) \<Rightarrow> x < y | _ \<Rightarrow> False)"

section \<open>The paginated store\<close>

text \<open>
  The handler imports \<^verbatim>\<open>getPagedQuery\<close>, \<^verbatim>\<open>queryFilterForKey\<close> and \<^verbatim>\<open>queryUsers\<close> from
  \<^verbatim>\<open>./utils\<close>, which is not among the source files. They are given here as the
  specification describes them (PagedScanner and UserSetCollector).
\<close>

text \<open>Modelled from the spec: the error of a failed page fetch (section 7), with its
  cause.\<close>

datatype StoreQueryError = StoreQueryError string

text \<open>Modelled from the spec: one event row of the store (section 3), with its partition
  key, its row key and the pseudonymous identifier of the user.\<close>

record UserRecord =
  partitionKey :: string
  rowKey :: string
  userIdentifier :: FiscalCodeHash

text \<open>Modelled from the spec: the filter of a scan, an exact match on the partition key
  (section 4.1).\<close>

datatype TableQuery = PartitionKeyEquals string

text \<open>Modelled from the spec: the outcome of one page fetch, a failure or the records of
  the page.\<close>

type_synonym PageResult = "StoreQueryError + UserRecord list"

text \<open>
  Modelled from the spec: the store client (section 6). It answers a query on a table with
  a finite sequence of pages, each fetched by one round-trip that may fail. It is given by
  the outcomes of the successive page fetches; the store signals that no page remains by
  the end of the list.
\<close>

type_synonym TableService = "string \<Rightarrow> TableQuery \<Rightarrow> PageResult list"

text \<open>Modelled from the spec: the type \<^verbatim>\<open>PagedQuery\<close> of \<^verbatim>\<open>./utils\<close>, a query bound to
  its table and to the pages the store will deliver.\<close>

record PagedQuery =
  queryTable :: string
  tableQuery :: TableQuery
  pageResults :: "PageResult list"

text \<open>One round-trip to the store: the table, the filter and the number of the page.\<close>

datatype PageFetch = PageFetch (fetchTable: string) (fetchQuery: TableQuery) (fetchPage: nat)

text \<open>Modelled from the spec: \<^verbatim>\<open>queryFilterForKey\<close> of \<^verbatim>\<open>./utils\<close>, the exact-match
  filter on a partition key.\<close>

definition queryFilterForKey :: "string \<Rightarrow> TableQuery" where
  "queryFilterForKey key = PartitionKeyEquals key"

text \<open>Modelled from the spec: \<^verbatim>\<open>getPagedQuery\<close> of \<^verbatim>\<open>./utils\<close>, which binds the store
  client and the table and issues no query by itself.\<close>

definition getPagedQuery :: "TableService \<Rightarrow> string \<Rightarrow> TableQuery \<Rightarrow> PagedQuery" where
  "getPagedQuery tableService table q =
     \<lparr> queryTable = table, tableQuery = q, pageResults = tableService table q \<rparr>"

text \<open>
  Modelled from the spec: the PagedScanner of section 4.1. It asks for page after page
  until the store has no more, and fails as a whole at the first page fetch that fails.
  The second component lists the round-trips made, in order.
\<close>

fun scan_from ::
  "PagedQuery \<Rightarrow> nat \<Rightarrow> PageResult list
     \<Rightarrow> (StoreQueryError + UserRecord list list) \<times> PageFetch list" where
  "scan_from q i [] = (Inr [], [])"
| "scan_from q i (Inl e # rest) = (Inl e, [PageFetch (queryTable q) (tableQuery q) i])"
| "scan_from q i (Inr page # rest) =
     (case scan_from q (i + 1) rest of
        (Inl e, fetches) \<Rightarrow> (Inl e, PageFetch (queryTable q) (tableQuery q) i # fetches)
      | (Inr pages, fetches) \<Rightarrow>
          (Inr (page # pages), PageFetch (queryTable q) (tableQuery q) i # fetches))"

text \<open>Modelled from the spec: the whole scan of section 4.1, from the first page on.\<close>

definition scan :: "PagedQuery \<Rightarrow> (StoreQueryError + UserRecord list list) \<times> PageFetch list" where
  "scan q = scan_from q 0 (pageResults q)"

text \<open>
  Modelled from the spec: \<^verbatim>\<open>queryUsers\<close> of \<^verbatim>\<open>./utils\<close>, the UserSetCollector of
  section 4.2. Every record of every page has its user identifier added to one set, which
  is returned once the scan is exhausted; a failed scan fails the call with the same error.
\<close>

definition queryUsers ::
  "PagedQuery \<Rightarrow> (StoreQueryError + FiscalCodeHash ES6Set) \<times> PageFetch list" where
  "queryUsers q =
     (case scan q of
        (Inl e, fetches) \<Rightarrow> (Inl e, fetches)
      | (Inr pages, fetches) \<Rightarrow>
          (Inr (fold (\<lambda>page entries. fold (\<lambda>e. add (userIdentifier e)) page entries)
                  pages new_Set),
           fetches))"

section \<open>The handler\<close>

text \<open>
  Lines 128 to 159 of the handler. Each \<^verbatim>\<open>forEach\<close> loop walks a set in insertion order
  and pushes the elements that pass its test onto the end of an array.
\<close>

definition forEach_push :: "('a \<Rightarrow> bool) \<Rightarrow> 'a ES6Set \<Rightarrow> 'a list \<Rightarrow> 'a list" where
  "forEach_push keep s arr =
     fold (\<lambda>x acc. if keep x then acc @ [x] else acc) (values_of s) arr"

definition feedJson ::
  "string \<Rightarrow> FiscalCodeHash ES6Set \<Rightarrow> FiscalCodeHash ES6Set \<Rightarrow> FiscalCodeHash ES6Set
     \<Rightarrow> SubscriptionsFeed" where
  "feedJson subscriptionsDateUTC profileSubscriptionsSet serviceSubscriptionsSet
       serviceUnsubscriptionsSet =
     (let subscriptions0 = [];
          subscriptions1 =
            forEach_push (\<lambda>ps. \<not> has serviceUnsubscriptionsSet ps)
              profileSubscriptionsSet subscriptions0;
          subscriptions2 =
            forEach_push (\<lambda>ss. \<not> has profileSubscriptionsSet ss)
              serviceSubscriptionsSet subscriptions1;
          unsubscriptions0 = [];
          unsubscriptions1 =
            forEach_push (\<lambda>su. \<not> has profileSubscriptionsSet su)
              serviceUnsubscriptionsSet unsubscriptions0
      in \<lparr> dateUTC = subscriptionsDateUTC,
           subscriptions = subscriptions2,
           unsubscriptions = unsubscriptions1 \<rparr>)"

text \<open>Lines 86 to 88: the instant from which the data of a day can be asked for.\<close>

definition availableSince :: "(string \<Rightarrow> int option) \<Rightarrow> string \<Rightarrow> int option" where
  "availableSince other_formats subscriptionsDateUTC =
     num_add (Date_parse other_formats (subscriptionsDateUTC @ ''T00:00:00Z''))
       (Some (24 * 60 * 60 * 1000))"

text \<open>
  \<^verbatim>\<open>GetSubscriptionsFeedHandler(tableService, subscriptionsFeedTable)\<close> applied to the
  service of the user attributes and to the date parameter, at the instant \<open>now\<close> read
  from \<^verbatim>\<open>Date.now()\<close>, on an engine that reads the other date formats as
  \<open>other_formats\<close> does. The result is the outcome of the returned promise (\<open>Inl\<close> when an
  awaited \<^verbatim>\<open>queryUsers\<close> throws, the handler catching nothing) together with the
  round-trips made to the store. The three \<^verbatim>\<open>await\<close>s run one after the other.
\<close>

definition GetSubscriptionsFeedHandler ::
  "(string \<Rightarrow> int option) \<Rightarrow> TableService \<Rightarrow> string \<Rightarrow> int \<Rightarrow> string \<Rightarrow> string
     \<Rightarrow> (StoreQueryError + Response) \<times> PageFetch list" where
  "GetSubscriptionsFeedHandler other_formats tableService subscriptionsFeedTable now serviceId
       subscriptionsDateUTC =
     (if num_less (Some now) (availableSince other_formats subscriptionsDateUTC)
      then (Inr (ResponseErrorNotFound ''Data not available yet''
                  (''Subscription data for '' @ subscriptionsDateUTC
                     @ '' will be available from ''
                     @ toUTCString (availableSince other_formats subscriptionsDateUTC))),
            [])
      else
        let pagedQuery = getPagedQuery tableService subscriptionsFeedTable;
            profileSubscriptionsQuery =
              pagedQuery (queryFilterForKey (''P-'' @ subscriptionsDateUTC @ ''-S''));
            serviceSubscriptionsQuery =
              pagedQuery (queryFilterForKey
                (''S-'' @ subscriptionsDateUTC @ ''-'' @ serviceId @ ''-S''));
            serviceUnsubscriptionsQuery =
              pagedQuery (queryFilterForKey
                (''S-'' @ subscriptionsDateUTC @ ''-'' @ serviceId @ ''-U''))
        in case queryUsers profileSubscriptionsQuery of
             (Inl e, fetches1) \<Rightarrow> (Inl e, fetches1)
           | (Inr profileSubscriptionsSet, fetches1) \<Rightarrow>
               (case queryUsers serviceSubscriptionsQuery of
                  (Inl e, fetches2) \<Rightarrow> (Inl e, fetches1 @ fetches2)
                | (Inr serviceSubscriptionsSet, fetches2) \<Rightarrow>
                    (case queryUsers serviceUnsubscriptionsQuery of
                       (Inl e, fetches3) \<Rightarrow> (Inl e, fetches1 @ fetches2 @ fetches3)
                     | (Inr serviceUnsubscriptionsSet, fetches3) \<Rightarrow>
                         (Inr (ResponseSuccessJson
                                 (feedJson subscriptionsDateUTC profileSubscriptionsSet
                                    serviceSubscriptionsSet serviceUnsubscriptionsSet)),
                          fetches1 @ fetches2 @ fetches3))))"

section \<open>Notions of the specification\<close>

text \<open>
  The specification speaks of a date in the form \<^verbatim>\<open>YYYY-MM-DD\<close>, of the day after it
  and of midnight UTC of a day. These are defined on their own, from the civil calendar,
  to be compared with what the handler computes.
\<close>

text \<open>The year, month and day written in a string of the form \<^verbatim>\<open>YYYY-MM-DD\<close>.\<close>

fun ShortDate_fields :: "string \<Rightarrow> (int \<times> int \<times> int) option" where
  "ShortDate_fields [y1, y2, y3, y4, d1, m1, m2, d2, a1, a2] =
     (if d1 = CHR ''-'' \<and> d2 = CHR ''-''
      then (case (number_of_digits [y1, y2, y3, y4], number_of_digits [m1, m2],
                  number_of_digits [a1, a2]) of
              (Some year, Some month, Some day) \<Rightarrow> Some (year, month, day)
            | _ \<Rightarrow> None)
      else None)"
| "ShortDate_fields _ = None"

definition DaysInMonth :: "int \<Rightarrow> int \<Rightarrow> int" where
  "DaysInMonth year month =
     (if month = 2 then (if InLeapYear year then 29 else 28)
      else if month = 4 \<or> month = 6 \<or> month = 9 \<or> month = 11 then 30 else 31)"

text \<open>A day that exists in the calendar.\<close>

definition calendar_date :: "int \<Rightarrow> int \<Rightarrow> int \<Rightarrow> bool" where
  "calendar_date year month day =
     (1 \<le> month \<and> month \<le> 12 \<and> 1 \<le> day \<and> day \<le> DaysInMonth year month)"

definition day_after :: "int \<times> int \<times> int \<Rightarrow> int \<times> int \<times> int" where
  "day_after ymd =
     (case ymd of (year, month, day) \<Rightarrow>
        if day < DaysInMonth year month then (year, month, day + 1)
        else if month < 12 then (year, month + 1, 1)
        else (year + 1, 1, 1))"

text \<open>Midnight UTC at the start of a day, in milliseconds since the epoch.\<close>

definition midnight_UTC :: "int \<times> int \<times> int \<Rightarrow> int" where
  "midnight_UTC ymd =
     (case ymd of (year, month, day) \<Rightarrow> MakeDate (MakeDay year (month - 1) day) 0)"

text \<open>The outcome is the not-found response of the availability check.\<close>

definition isNotFound :: "StoreQueryError + Response \<Rightarrow> bool" where
  "isNotFound r = (case r of Inr (ResponseErrorNotFound title detail) \<Rightarrow> True | _ \<Rightarrow> False)"

text \<open>The set fetched for a partition key, or the error of the scan; the round-trips of
  that scan; the queries of a list of round-trips, each named once.\<close>

definition fetched :: "TableService \<Rightarrow> string \<Rightarrow> string \<Rightarrow> StoreQueryError + FiscalCodeHash ES6Set" where
  "fetched tableService table key =
     fst (queryUsers (getPagedQuery tableService table (queryFilterForKey key)))"

definition round_trips :: "TableService \<Rightarrow> string \<Rightarrow> string \<Rightarrow> PageFetch list" where
  "round_trips tableService table key =
     snd (queryUsers (getPagedQuery tableService table (queryFilterForKey key)))"

definition queried :: "PageFetch list \<Rightarrow> TableQuery list" where
  "queried fetches = remdups (map fetchQuery fetches)"

section \<open>Example engine and stores\<close>

text \<open>An engine that reads no date format but the date-time form.\<close>

definition no_other_format :: "string \<Rightarrow> int option" where
  "no_other_format s = None"

text \<open>
  Stores for the day 2021-05-01 and the service \<open>svc\<close>, used to run the handler on
  concrete inputs. A record of user \<open>u\<close> under partition key \<open>k\<close>:
\<close>

definition user_record :: "string \<Rightarrow> FiscalCodeHash \<Rightarrow> UserRecord" where
  "user_record k u = \<lparr> partitionKey = k, rowKey = u, userIdentifier = u \<rparr>"

definition store_of ::
  "PageResult list \<Rightarrow> PageResult list \<Rightarrow> PageResult list \<Rightarrow> TableService" where
  "store_of profile_pages sub_pages unsub_pages table q =
     (if table \<noteq> ''SubscriptionsFeedByDay'' then []
      else if q = PartitionKeyEquals ''P-2021-05-01-S'' then profile_pages
      else if q = PartitionKeyEquals ''S-2021-05-01-svc-S'' then sub_pages
      else if q = PartitionKeyEquals ''S-2021-05-01-svc-U'' then unsub_pages
      else [])"

text \<open>Profiles \<open>a\<close> and \<open>b\<close> on two pages, subscriptions of \<open>b\<close> and \<open>c\<close>, one
  unsubscription of \<open>b\<close>.\<close>

definition store_abc :: TableService where
  "store_abc =
     store_of
       [Inr [user_record ''P-2021-05-01-S'' ''a''], Inr [user_record ''P-2021-05-01-S'' ''b'']]
       [Inr [user_record ''S-2021-05-01-svc-S'' ''b'', user_record ''S-2021-05-01-svc-S'' ''c'']]
       [Inr [user_record ''S-2021-05-01-svc-U'' ''b'']]"

text \<open>Profiles \<open>a\<close>, \<open>b\<close> and \<open>d\<close>, and the same records paginated and ordered
  otherwise, one of them delivered twice.\<close>

definition store_abcd :: TableService where
  "store_abcd =
     store_of
       [Inr [user_record ''P-2021-05-01-S'' ''a''], Inr [user_record ''P-2021-05-01-S'' ''b''],
        Inr [user_record ''P-2021-05-01-S'' ''d'']]
       [Inr [user_record ''S-2021-05-01-svc-S'' ''b'', user_record ''S-2021-05-01-svc-S'' ''c'']]
       [Inr [user_record ''S-2021-05-01-svc-U'' ''b'']]"

definition store_abcd_reordered :: TableService where
  "store_abcd_reordered =
     store_of
       [Inr [user_record ''P-2021-05-01-S'' ''d'', user_record ''P-2021-05-01-S'' ''b'',
             user_record ''P-2021-05-01-S'' ''a'']]
       [Inr [user_record ''S-2021-05-01-svc-S'' ''c''], Inr [],
        Inr [user_record ''S-2021-05-01-svc-S'' ''b'']]
       [Inr [user_record ''S-2021-05-01-svc-U'' ''b'', user_record ''S-2021-05-01-svc-U'' ''b'']]"

text \<open>Two stores with the same profiles (\<open>a\<close> and \<open>b\<close>) and the same unsubscriptions
  (\<open>b\<close> and \<open>e\<close>), and with different subscriptions.\<close>

definition store_unsub_e :: TableService where
  "store_unsub_e =
     store_of
       [Inr [user_record ''P-2021-05-01-S'' ''a''], Inr [user_record ''P-2021-05-01-S'' ''b'']]
       [Inr [user_record ''S-2021-05-01-svc-S'' ''b'', user_record ''S-2021-05-01-svc-S'' ''c'']]
       [Inr [user_record ''S-2021-05-01-svc-U'' ''b'', user_record ''S-2021-05-01-svc-U'' ''e'']]"

definition store_unsub_e_other_subs :: TableService where
  "store_unsub_e_other_subs =
     store_of
       [Inr [user_record ''P-2021-05-01-S'' ''a''], Inr [user_record ''P-2021-05-01-S'' ''b'']]
       [Inr [user_record ''S-2021-05-01-svc-S'' ''x'', user_record ''S-2021-05-01-svc-S'' ''e''],
        Inr [user_record ''S-2021-05-01-svc-S'' ''a'']]
       [Inr [user_record ''S-2021-05-01-svc-U'' ''b'', user_record ''S-2021-05-01-svc-U'' ''e'']]"

text \<open>The first fetch of profiles fails; the second fetch of unsubscriptions fails.\<close>

definition store_profile_fails :: TableService where
  "store_profile_fails =
     store_of
       [Inl (StoreQueryError ''timeout'')]
       [Inr [user_record ''S-2021-05-01-svc-S'' ''b'', user_record ''S-2021-05-01-svc-S'' ''c'']]
       [Inr [user_record ''S-2021-05-01-svc-U'' ''b'']]"

definition store_unsub_page2_fails :: TableService where
  "store_unsub_page2_fails =
     store_of
       [Inr [user_record ''P-2021-05-01-S'' ''a''], Inr [user_record ''P-2021-05-01-S'' ''b'']]
       [Inr [user_record ''S-2021-05-01-svc-S'' ''b'', user_record ''S-2021-05-01-svc-S'' ''c'']]
       [Inr [user_record ''S-2021-05-01-svc-U'' ''b''], Inl (StoreQueryError ''reset'')]"

text \<open>The fetch of the second page of subscriptions fails.\<close>

definition store_sub_page2_fails :: TableService where
  "store_sub_page2_fails =
     store_of
       [Inr [user_record ''P-2021-05-01-S'' ''a''], Inr [user_record ''P-2021-05-01-S'' ''b'']]
       [Inr [user_record ''S-2021-05-01-svc-S'' ''b''], Inl (StoreQueryError ''throttled''),
        Inr [user_record ''S-2021-05-01-svc-S'' ''c'']]
       [Inr [user_record ''S-2021-05-01-svc-U'' ''b'']]"

section \<open>Sets and the loops\<close>

lemma distinct_values_of: "distinct (values_of s)"
  using values_of [of s] by simp

lemma members_new_Set: "members new_Set = {}"
  by (simp add: members_def new_Set.rep_eq)

lemma members_add: "members (add x s) = insert x (members s)"
  by (auto simp: members_def add.rep_eq)

lemma members_fold_add: "members (fold add xs s) = set xs \<union> members s"
  by (induction xs arbitrary: s) (auto simp: members_add)

lemma members_Set_of: "members (Set_of xs) = set xs"
  by (simp add: Set_of_def members_fold_add members_new_Set)

lemma values_of_fold_add_distinct:
  "distinct (values_of s @ xs) \<Longrightarrow> values_of (fold add xs s) = values_of s @ xs"
  by (induction xs arbitrary: s) (auto simp: add.rep_eq)

lemma values_of_Set_of: "distinct xs \<Longrightarrow> values_of (Set_of xs) = xs"
  by (simp add: Set_of_def values_of_fold_add_distinct new_Set.rep_eq)

lemma has_members: "has s x = (x \<in> members s)"
  by (simp add: has_def members_def)

lemma fold_push_filter:
  "fold (\<lambda>x acc. if keep x then acc @ [x] else acc) xs arr = arr @ filter keep xs"
  by (induction xs arbitrary: arr) auto

lemma forEach_push_filter: "forEach_push keep s arr = arr @ filter keep (values_of s)"
  by (simp add: forEach_push_def fold_push_filter)

lemma subscriptions_feedJson:
  "subscriptions (feedJson D P S U) =
     filter (\<lambda>ps. \<not> has U ps) (values_of P) @ filter (\<lambda>ss. \<not> has P ss) (values_of S)"
  by (simp add: feedJson_def forEach_push_filter)

lemma unsubscriptions_feedJson:
  "unsubscriptions (feedJson D P S U) = filter (\<lambda>su. \<not> has P su) (values_of U)"
  by (simp add: feedJson_def forEach_push_filter)

lemma dateUTC_feedJson: "dateUTC (feedJson D P S U) = D"
  by (simp add: feedJson_def)

lemma set_subscriptions_feedJson:
  "set (subscriptions (feedJson D P S U)) = (members P - members U) \<union> (members S - members P)"
  by (auto simp: subscriptions_feedJson has_def members_def)

lemma set_unsubscriptions_feedJson:
  "set (unsubscriptions (feedJson D P S U)) = members U - members P"
  by (auto simp: unsubscriptions_feedJson has_def members_def)

lemma distinct_subscriptions_feedJson: "distinct (subscriptions (feedJson D P S U))"
  by (auto simp: subscriptions_feedJson distinct_values_of has_def)

lemma distinct_unsubscriptions_feedJson: "distinct (unsubscriptions (feedJson D P S U))"
  by (simp add: unsubscriptions_feedJson distinct_values_of)

lemma count_list_distinct: "distinct xs \<Longrightarrow> count_list xs x = (if x \<in> set xs then 1 else 0)"
  by (induction xs) auto

section \<open>Claims on the reconciliation\<close>

text \<open>
  Claim C1. Whatever the three fetched sets, the subscriptions of the feed are, as a set,
  (ProfileSet minus UnsubSet) united with (SubSet minus ProfileSet), and the
  unsubscriptions are UnsubSet minus ProfileSet. In particular, for distinct \<open>a\<close>, \<open>b\<close>,
  \<open>c\<close>, the sets {a, b}, {b, c} and {b} give the subscriptions {a, c} and no
  unsubscription.
\<close>

theorem C1_reconciliation_sets:
  "set (subscriptions (feedJson D P S U)) = (members P - members U) \<union> (members S - members P)
   \<and> set (unsubscriptions (feedJson D P S U)) = members U - members P
   \<and> (a \<noteq> b \<and> b \<noteq> c \<and> a \<noteq> c \<longrightarrow>
        set (subscriptions (feedJson D (Set_of [a, b]) (Set_of [b, c]) (Set_of [b]))) = {a, c}
        \<and> set (unsubscriptions (feedJson D (Set_of [a, b]) (Set_of [b, c]) (Set_of [b]))) = {})"
  by (auto simp: set_subscriptions_feedJson set_unsubscriptions_feedJson members_Set_of)

theorem C1_reconciliation_sets_witness:
  "''a'' \<noteq> ''b'' \<and> ''b'' \<noteq> ''c'' \<and> ''a'' \<noteq> ''c''
   \<and> set (subscriptions (feedJson ''2021-05-01'' (Set_of [''a'', ''b'']) (Set_of [''b'', ''c''])
            (Set_of [''b'']))) = {''a'', ''c''}
   \<and> set (unsubscriptions (feedJson ''2021-05-01'' (Set_of [''a'', ''b''])
            (Set_of [''b'', ''c'']) (Set_of [''b'']))) = {}"
proof -
  have h: "''a'' \<noteq> ''b'' \<and> ''b'' \<noteq> ''c'' \<and> ''a'' \<noteq> ''c''"
    by simp
  with C1_reconciliation_sets [of "''2021-05-01''" "Set_of [''a'', ''b'']"
      "Set_of [''b'', ''c'']" "Set_of [''b'']" "''a''" "''b''" "''c''"]
  show ?thesis by blast
qed

text \<open>
  Claim C2 says that subscriptions and unsubscriptions never overlap. A user outside the
  profile set who both subscribed and unsubscribed is in both outputs.
\<close>

theorem C2_counterexample:
  "set (subscriptions (feedJson ''2021-05-01'' new_Set (Set_of [''x'']) (Set_of [''x''])))
     \<inter> set (unsubscriptions (feedJson ''2021-05-01'' new_Set (Set_of [''x'']) (Set_of [''x''])))
   \<noteq> {}"
  by (simp add: set_subscriptions_feedJson set_unsubscriptions_feedJson members_Set_of
        members_new_Set)

text \<open>
  Claim C2, amended. The users in both outputs are exactly those in both SubSet and
  UnsubSet and not in ProfileSet; so the outputs are disjoint exactly when every user who
  both subscribed and unsubscribed also created the profile that day.
\<close>

theorem C2_overlap:
  "set (subscriptions (feedJson D P S U)) \<inter> set (unsubscriptions (feedJson D P S U))
     = (members S \<inter> members U) - members P
   \<and> (set (subscriptions (feedJson D P S U)) \<inter> set (unsubscriptions (feedJson D P S U)) = {}
        \<longleftrightarrow> members S \<inter> members U \<subseteq> members P)"
  by (auto simp: set_subscriptions_feedJson set_unsubscriptions_feedJson)

theorem C2_overlap_witness:
  "members (Set_of [''b'', ''c'']) \<inter> members (Set_of [''b'']) \<subseteq> members (Set_of [''a'', ''b''])
   \<and> set (subscriptions (feedJson ''2021-05-01'' (Set_of [''a'', ''b'']) (Set_of [''b'', ''c''])
            (Set_of [''b''])))
       \<inter> set (unsubscriptions (feedJson ''2021-05-01'' (Set_of [''a'', ''b''])
            (Set_of [''b'', ''c'']) (Set_of [''b'']))) = {}"
proof -
  have h: "members (Set_of [''b'', ''c'']) \<inter> members (Set_of [''b''])
             \<subseteq> members (Set_of [''a'', ''b''])"
    by (simp add: members_Set_of)
  with C2_overlap [of "''2021-05-01''" "Set_of [''a'', ''b'']" "Set_of [''b'', ''c'']"
      "Set_of [''b'']"]
  show ?thesis by blast
qed

text \<open>
  Claim C3. With an empty profile set, a user \<open>x\<close> who subscribed and unsubscribed on
  the same day is reported in both outputs: subscriptions and unsubscriptions are both
  the one-element sequence of \<open>x\<close>.
\<close>

theorem C3_same_day_subscribe_and_unsubscribe:
  "feedJson D new_Set (Set_of [x]) (Set_of [x])
     = \<lparr> dateUTC = D, subscriptions = [x], unsubscriptions = [x] \<rparr>"
  by (simp add: feedJson_def forEach_push_filter values_of_Set_of has_def new_Set.rep_eq)

theorem C3_same_day_subscribe_and_unsubscribe_witness:
  "subscriptions (feedJson ''2021-05-01'' new_Set (Set_of [''x'']) (Set_of [''x''])) = [''x'']
   \<and> unsubscriptions (feedJson ''2021-05-01'' new_Set (Set_of [''x'']) (Set_of [''x''])) = [''x'']"
  using C3_same_day_subscribe_and_unsubscribe [of "''2021-05-01''" "''x''"]
  by simp

text \<open>
  Claim C7 says, in particular, that a newly created profile that also logs an explicit
  subscribe event appears exactly once in the subscriptions. A user \<open>b\<close> who created the
  profile, subscribed and unsubscribed on the same day is skipped by the first loop (the
  user unsubscribed) and by the second (the user is a new profile), and does not appear.
\<close>

theorem C7_counterexample:
  "''b'' \<in> members (Set_of [''b''])
   \<and> count_list (subscriptions (feedJson ''2021-05-01'' (Set_of [''b'']) (Set_of [''b''])
        (Set_of [''b'']))) ''b'' = 0
   \<and> count_list (subscriptions (feedJson ''2021-05-01'' (Set_of [''b'']) (Set_of [''b''])
        (Set_of [''b'']))) ''b'' \<noteq> 1"
  by (simp add: members_Set_of count_list_distinct distinct_subscriptions_feedJson
        set_subscriptions_feedJson)

text \<open>
  Claim C7, amended. Neither output sequence holds an identifier twice, whatever the three
  sets: every identifier occurs at most once in each. A user with a new profile and an
  explicit subscription occurs exactly once in the subscriptions when the user did not
  unsubscribe from the service that day, and does not occur in them when the user did.
\<close>

theorem C7_no_duplicates:
  "distinct (subscriptions (feedJson D P S U))
   \<and> distinct (unsubscriptions (feedJson D P S U))
   \<and> count_list (subscriptions (feedJson D P S U)) x \<le> 1
   \<and> count_list (unsubscriptions (feedJson D P S U)) x \<le> 1
   \<and> (x \<in> members P \<and> x \<in> members S \<and> x \<notin> members U \<longrightarrow>
        count_list (subscriptions (feedJson D P S U)) x = 1)
   \<and> (x \<in> members P \<and> x \<in> members S \<and> x \<in> members U \<longrightarrow>
        count_list (subscriptions (feedJson D P S U)) x = 0)"
  by (simp add: distinct_subscriptions_feedJson distinct_unsubscriptions_feedJson
        count_list_distinct set_subscriptions_feedJson)

theorem C7_no_duplicates_witness:
  "''b'' \<in> members (Set_of [''a'', ''b'']) \<and> ''b'' \<in> members (Set_of [''b'', ''c''])
   \<and> ''b'' \<notin> members (Set_of [''c'']) \<and> ''b'' \<in> members (Set_of [''b''])
   \<and> count_list (subscriptions (feedJson ''2021-05-01'' (Set_of [''a'', ''b''])
        (Set_of [''b'', ''c'']) (Set_of [''c'']))) ''b'' = 1
   \<and> count_list (subscriptions (feedJson ''2021-05-01'' (Set_of [''a'', ''b''])
        (Set_of [''b'', ''c'']) (Set_of [''b'']))) ''b'' = 0"
proof -
  have h: "''b'' \<in> members (Set_of [''a'', ''b'']) \<and> ''b'' \<in> members (Set_of [''b'', ''c''])
      \<and> ''b'' \<notin> members (Set_of [''c'']) \<and> ''b'' \<in> members (Set_of [''b''])"
    by (simp add: members_Set_of)
  with C7_no_duplicates [of "''2021-05-01''" "Set_of [''a'', ''b'']" "Set_of [''b'', ''c'']"
      "Set_of [''c'']" "''b''"]
    C7_no_duplicates [of "''2021-05-01''" "Set_of [''a'', ''b'']" "Set_of [''b'', ''c'']"
      "Set_of [''b'']" "''b''"]
  show ?thesis by blast
qed

section \<open>The day after a date\<close>

lemma div_succ:
  fixes x n :: int
  assumes "0 < n"
  shows "(x + 1) div n = x div n + (if (x + 1) mod n = 0 then 1 else 0)"
proof (cases "x mod n = n - 1")
  case True
  have "x = n * (x div n) + (n - 1)"
    using True mult_div_mod_eq [of n x] by metis
  then have "x + 1 = n * (x div n + 1) + 0"
    by (simp add: algebra_simps)
  then have "(x + 1) div n = x div n + 1" and "(x + 1) mod n = 0"
    using assms int_div_pos_eq [of "x + 1" n "x div n + 1" 0]
      int_mod_pos_eq [of "x + 1" n "x div n + 1" 0] by simp_all
  then show ?thesis by simp
next
  case False
  have r: "0 \<le> x mod n" "x mod n < n" using assms by simp_all
  with False have lt: "x mod n + 1 < n" by simp
  have "x + 1 = n * (x div n) + (x mod n + 1)"
    using mult_div_mod_eq [of n x] by simp
  then have "(x + 1) div n = x div n" and "(x + 1) mod n = x mod n + 1"
    using lt r int_div_pos_eq [of "x + 1" n "x div n" "x mod n + 1"]
      int_mod_pos_eq [of "x + 1" n "x div n" "x mod n + 1"] by simp_all
  then show ?thesis using r by simp
qed

lemma DayFromYear_Suc: "DayFromYear (y + 1) = DayFromYear y + (if InLeapYear y then 366 else 365)"
proof -
  have m4: "(y - 1968) mod 4 = y mod 4" by algebra
  have m100: "(y - 1900) mod 100 = y mod 100" by algebra
  have m400: "(y - 1600) mod 400 = y mod 400" by algebra
  have a: "(y + 1 - 1969) div 4 = (y - 1969) div 4 + (if y mod 4 = 0 then 1 else 0)"
    using div_succ [of 4 "y - 1969"] m4 by (simp add: algebra_simps)
  have b: "(y + 1 - 1901) div 100 = (y - 1901) div 100 + (if y mod 100 = 0 then 1 else 0)"
    using div_succ [of 100 "y - 1901"] m100 by (simp add: algebra_simps)
  have c: "(y + 1 - 1601) div 400 = (y - 1601) div 400 + (if y mod 400 = 0 then 1 else 0)"
    using div_succ [of 400 "y - 1601"] m400 by (simp add: algebra_simps)
  have d: "y mod 400 = 0 \<Longrightarrow> y mod 100 = 0" by auto
  have e: "y mod 100 = 0 \<Longrightarrow> y mod 4 = 0" by auto
  show ?thesis
    unfolding DayFromYear_def InLeapYear_def a b c using d e by auto
qed

lemma MakeDay_day_after:
  assumes "calendar_date y m d"
  shows "(case day_after (y, m, d) of (y', m', d') \<Rightarrow> MakeDay y' (m' - 1) d') = MakeDay y (m - 1) d + 1"
proof (cases "d < DaysInMonth y m")
  case True
  then show ?thesis by (simp add: day_after_def MakeDay_def)
next
  case False
  with assms have d: "d = DaysInMonth y m" by (simp add: calendar_date_def)
  show ?thesis
  proof (cases "m = 12")
    case True
    then show ?thesis using d
      by (simp add: day_after_def MakeDay_def DaysInMonth_def MonthStart_def DayFromYear_Suc)
  next
    case False
    from assms have "1 \<le> m" "m \<le> 12" by (simp_all add: calendar_date_def)
    with False have "m = 1 \<or> m = 2 \<or> m = 3 \<or> m = 4 \<or> m = 5 \<or> m = 6 \<or> m = 7 \<or> m = 8
        \<or> m = 9 \<or> m = 10 \<or> m = 11" by arith
    then show ?thesis using d
      by (elim disjE) (simp_all add: day_after_def MakeDay_def DaysInMonth_def MonthStart_def)
  qed
qed

lemma midnight_day_after:
  "calendar_date y m d \<Longrightarrow> midnight_UTC (day_after (y, m, d)) = midnight_UTC (y, m, d) + 24 * 60 * 60 * 1000"
  using MakeDay_day_after [of y m d]
  by (simp add: midnight_UTC_def MakeDate_def msPerDay_def split: prod.splits)

lemma number_of_digits_00: "number_of_digits ''00'' = Some 0"
  by (simp add: digit_val_def)

lemma Date_parse_ShortDate:
  assumes "ShortDate_fields D = Some (y, m, d)" and "1 \<le> m" "m \<le> 12" "1 \<le> d" "d \<le> 31"
  shows "Date_parse other_formats (D @ ''T00:00:00Z'') = Some (midnight_UTC (y, m, d))"
proof -
  from assms(1) obtain y1 y2 y3 y4 m1 m2 a1 a2 where
    D: "D = [y1, y2, y3, y4, CHR ''-'', m1, m2, CHR ''-'', a1, a2]"
    and y: "number_of_digits [y1, y2, y3, y4] = Some y"
    and m: "number_of_digits [m1, m2] = Some m"
    and d: "number_of_digits [a1, a2] = Some d"
    by (elim ShortDate_fields.elims)
       (simp_all del: number_of_digits.simps split: if_splits option.splits)
  show ?thesis
    unfolding D using assms(2-5)
    by (simp del: number_of_digits.simps
          add: y m d number_of_digits_00 midnight_UTC_def MakeTime_def)
qed

lemma DaysInMonth_le_31: "DaysInMonth y m \<le> 31"
  by (simp add: DaysInMonth_def)

lemma availableSince_calendar_date:
  assumes "ShortDate_fields D = Some (y, m, d)" and "calendar_date y m d"
  shows "availableSince other_formats D = Some (midnight_UTC (day_after (y, m, d)))"
proof -
  from assms(2) have r: "1 \<le> m" "m \<le> 12" "1 \<le> d" "d \<le> 31"
    using DaysInMonth_le_31 [of y m] by (simp_all add: calendar_date_def)
  show ?thesis
    by (simp add: availableSince_def Date_parse_ShortDate [OF assms(1) r] num_add_def
          midnight_day_after [OF assms(2)])
qed

section \<open>The scan and its round-trips\<close>

lemma scan_from_fetches:
  "set (snd (scan_from q i ps)) \<subseteq> {f. fetchTable f = queryTable q \<and> fetchQuery f = tableQuery q}"
proof (induction q i ps rule: scan_from.induct)
  case (1 q i)
  show ?case by simp
next
  case (2 q i e rest)
  show ?case by simp
next
  case (3 q i page rest)
  obtain r fetches where r: "scan_from q (i + 1) rest = (r, fetches)"
    by (cases "scan_from q (i + 1) rest")
  with 3 have "set fetches \<subseteq> {f. fetchTable f = queryTable q \<and> fetchQuery f = tableQuery q}"
    by simp
  with r show ?case by (cases r) auto
qed

lemma scan_from_nonempty: "ps \<noteq> [] \<Longrightarrow> snd (scan_from q i ps) \<noteq> []"
proof (cases ps)
  case Nil
  assume "ps \<noteq> []"
  with Nil show ?thesis by simp
next
  case (Cons r rest)
  show ?thesis
  proof (cases r)
    case (Inl e)
    with Cons show ?thesis by simp
  next
    case (Inr page)
    with Cons show ?thesis by (simp split: prod.splits sum.splits)
  qed
qed

lemma scan_from_failure:
  "\<exists>fetches. scan_from q i (map Inr pages @ Inl e # rest) = (Inl e, fetches)"
proof (induction pages arbitrary: i)
  case Nil
  show ?case by simp
next
  case (Cons page pages)
  from Cons [of "i + 1"] obtain fetches where
    "scan_from q (i + 1) (map Inr pages @ Inl e # rest) = (Inl e, fetches)" ..
  then show ?case by simp
qed

lemma snd_queryUsers: "snd (queryUsers q) = snd (scan q)"
  by (simp add: queryUsers_def split: prod.splits sum.splits)

lemma round_trips_fetches:
  "set (round_trips tableService table key)
     \<subseteq> {f. fetchTable f = table \<and> fetchQuery f = PartitionKeyEquals key}"
  using scan_from_fetches [of "getPagedQuery tableService table (queryFilterForKey key)" 0
      "tableService table (PartitionKeyEquals key)"]
  by (simp add: round_trips_def snd_queryUsers scan_def getPagedQuery_def queryFilterForKey_def)

lemma round_trips_nonempty:
  "tableService table (PartitionKeyEquals key) \<noteq> [] \<Longrightarrow> round_trips tableService table key \<noteq> []"
  by (simp add: round_trips_def snd_queryUsers scan_def getPagedQuery_def queryFilterForKey_def
        scan_from_nonempty)

lemma fetched_page_failure:
  assumes "tableService table (PartitionKeyEquals key) = map Inr pages @ Inl e # rest"
  shows "fetched tableService table key = Inl e"
proof -
  obtain fetches where
    "scan (getPagedQuery tableService table (queryFilterForKey key)) = (Inl e, fetches)"
    using assms scan_from_failure [of _ 0 pages e rest]
    by (auto simp: scan_def getPagedQuery_def queryFilterForKey_def)
  then show ?thesis
    by (simp add: fetched_def queryUsers_def)
qed

section \<open>The branches of the handler\<close>

lemma handler_not_available:
  assumes "num_less (Some now) (availableSince other_formats D)"
  shows "GetSubscriptionsFeedHandler other_formats tableService table now serviceId D =
           (Inr (ResponseErrorNotFound ''Data not available yet''
                  (''Subscription data for '' @ D @ '' will be available from ''
                     @ toUTCString (availableSince other_formats D))), [])"
  using assms by (simp add: GetSubscriptionsFeedHandler_def)

lemma handler_available:
  assumes "\<not> num_less (Some now) (availableSince other_formats D)"
  shows "GetSubscriptionsFeedHandler other_formats tableService table now serviceId D =
     (case fetched tableService table (''P-'' @ D @ ''-S'') of
        Inl e \<Rightarrow> (Inl e, round_trips tableService table (''P-'' @ D @ ''-S''))
      | Inr P \<Rightarrow>
          (case fetched tableService table (''S-'' @ D @ ''-'' @ serviceId @ ''-S'') of
             Inl e \<Rightarrow>
               (Inl e, round_trips tableService table (''P-'' @ D @ ''-S'')
                  @ round_trips tableService table (''S-'' @ D @ ''-'' @ serviceId @ ''-S''))
           | Inr S \<Rightarrow>
               (case fetched tableService table (''S-'' @ D @ ''-'' @ serviceId @ ''-U'') of
                  Inl e \<Rightarrow>
                    (Inl e, round_trips tableService table (''P-'' @ D @ ''-S'')
                       @ round_trips tableService table (''S-'' @ D @ ''-'' @ serviceId @ ''-S'')
                       @ round_trips tableService table (''S-'' @ D @ ''-'' @ serviceId @ ''-U''))
                | Inr U \<Rightarrow>
                    (Inr (ResponseSuccessJson (feedJson D P S U)),
                     round_trips tableService table (''P-'' @ D @ ''-S'')
                       @ round_trips tableService table (''S-'' @ D @ ''-'' @ serviceId @ ''-S'')
                       @ round_trips tableService table
                           (''S-'' @ D @ ''-'' @ serviceId @ ''-U'')))))"
  using assms
  unfolding GetSubscriptionsFeedHandler_def Let_def fetched_def round_trips_def
  by (auto split: prod.splits sum.splits)

lemma handler_profile_fails:
  assumes "\<not> num_less (Some now) (availableSince other_formats D)"
    and "fetched tableService table (''P-'' @ D @ ''-S'') = Inl e"
  shows "fst (GetSubscriptionsFeedHandler other_formats tableService table now serviceId D) = Inl e"
  using assms(2) by (simp add: handler_available [OF assms(1)])

lemma handler_sub_fails:
  assumes "\<not> num_less (Some now) (availableSince other_formats D)"
    and "fetched tableService table (''P-'' @ D @ ''-S'') = Inr P"
    and "fetched tableService table (''S-'' @ D @ ''-'' @ serviceId @ ''-S'') = Inl e"
  shows "fst (GetSubscriptionsFeedHandler other_formats tableService table now serviceId D) = Inl e"
  using assms(2,3) by (simp add: handler_available [OF assms(1)])

lemma handler_unsub_fails:
  assumes "\<not> num_less (Some now) (availableSince other_formats D)"
    and "fetched tableService table (''P-'' @ D @ ''-S'') = Inr P"
    and "fetched tableService table (''S-'' @ D @ ''-'' @ serviceId @ ''-S'') = Inr S"
    and "fetched tableService table (''S-'' @ D @ ''-'' @ serviceId @ ''-U'') = Inl e"
  shows "fst (GetSubscriptionsFeedHandler other_formats tableService table now serviceId D) = Inl e"
  using assms(2,3,4) by (simp add: handler_available [OF assms(1)])

lemma handler_success:
  assumes "\<not> num_less (Some now) (availableSince other_formats D)"
    and "fetched tableService table (''P-'' @ D @ ''-S'') = Inr P"
    and "fetched tableService table (''S-'' @ D @ ''-'' @ serviceId @ ''-S'') = Inr S"
    and "fetched tableService table (''S-'' @ D @ ''-'' @ serviceId @ ''-U'') = Inr U"
  shows "GetSubscriptionsFeedHandler other_formats tableService table now serviceId D =
           (Inr (ResponseSuccessJson (feedJson D P S U)),
            round_trips tableService table (''P-'' @ D @ ''-S'')
              @ round_trips tableService table (''S-'' @ D @ ''-'' @ serviceId @ ''-S'')
              @ round_trips tableService table (''S-'' @ D @ ''-'' @ serviceId @ ''-U''))"
  using assms(2,3,4) by (simp add: handler_available [OF assms(1)])

section \<open>The calendar fields of a time value\<close>

text \<open>
  The year computed by cycles is the year of ECMA-262, the one whose days include the day
  number; so the fields that \<^verbatim>\<open>toUTCString\<close> prints for midnight of a calendar date are
  those of the date.
\<close>

lemma DayFromYear_since_year_1:
  "DayFromYear y + 719162 = 365 * (y - 1) + (y - 1) div 4 - (y - 1) div 100 + (y - 1) div 400"
proof -
  have a: "(y - 1969) div 4 = (y - 1) div 4 - 492" by simp
  have b: "(y - 1901) div 100 = (y - 1) div 100 - 19" by simp
  have c: "(y - 1601) div 400 = (y - 1) div 400 - 4" by simp
  show ?thesis unfolding DayFromYear_def a b c by simp
qed

text \<open>The years before year \<open>y\<close>, split into cycles of 400, 100, 4 and 1 years.\<close>

lemma year_cycles:
  fixes z :: int
  defines "a \<equiv> z div 400" and "b \<equiv> (z mod 400) div 100"
    and "c \<equiv> ((z mod 400) mod 100) div 4" and "e \<equiv> ((z mod 400) mod 100) mod 4"
  shows "z = 400 * a + 100 * b + 4 * c + e"
    and "0 \<le> b" "b \<le> 3" "0 \<le> c" "c \<le> 24" "0 \<le> e" "e \<le> 3"
proof -
  have 1: "z = 400 * a + z mod 400" unfolding a_def by simp
  have 2: "z mod 400 = 100 * b + (z mod 400) mod 100" unfolding b_def by simp
  have 3: "(z mod 400) mod 100 = 4 * c + e" unfolding c_def e_def by simp
  have r1: "0 \<le> z mod 400" "z mod 400 < 400" by simp_all
  have r2: "0 \<le> (z mod 400) mod 100" "(z mod 400) mod 100 < 100" by simp_all
  show "0 \<le> e" "e \<le> 3" unfolding e_def by simp_all
  then show "0 \<le> c" "c \<le> 24" using 3 r2 by linarith+
  show "0 \<le> b" "b \<le> 3" using 2 r1 r2 by linarith+
  show "z = 400 * a + 100 * b + 4 * c + e" using 1 2 3 by linarith
qed


lemma succ_mod_eq_0_iff:
  fixes z n q r :: int
  assumes "z = n * q + r" and "0 \<le> r" and "r < n"
  shows "(z + 1) mod n = 0 \<longleftrightarrow> r = n - 1"
proof (cases "r = n - 1")
  case True
  with assms have "z + 1 = n * (q + 1) + 0" by (simp add: algebra_simps)
  then have "(z + 1) mod n = 0"
    using assms int_mod_pos_eq [of "z + 1" n "q + 1" 0] by simp
  with True show ?thesis by simp
next
  case False
  with assms have lt: "r + 1 < n" by simp
  from assms have "z + 1 = n * q + (r + 1)" by simp
  then have "(z + 1) mod n = r + 1"
    using assms lt int_mod_pos_eq [of "z + 1" n q "r + 1"] by simp
  with False assms show ?thesis by simp
qed

lemma YearFromDay_in_year:
  assumes k: "0 \<le> k" "k < (if InLeapYear y then 366 else 365)"
  shows "YearFromDay (DayFromYear y + k) = y"
proof -
  define z where "z = y - 1"
  define a where "a = z div 400"
  define b where "b = (z mod 400) div 100"
  define c where "c = ((z mod 400) mod 100) div 4"
  define e where "e = ((z mod 400) mod 100) mod 4"
  note cyc = year_cycles [of z, folded a_def b_def c_def e_def]
  have z: "z = 400 * a + 100 * b + 4 * c + e" by (rule cyc(1))
  have bnd: "0 \<le> b" "b \<le> 3" "0 \<le> c" "c \<le> 24" "0 \<le> e" "e \<le> 3" by (rule cyc)+
  have y: "y = z + 1" by (simp add: z_def)
  have d4: "z div 4 = 100 * a + 25 * b + c"
    using z bnd int_div_pos_eq [of z 4 "100 * a + 25 * b + c" e] by simp
  have d100: "z div 100 = 4 * a + b"
    using z bnd int_div_pos_eq [of z 100 "4 * a + b" "4 * c + e"] by simp
  have d400: "z div 400 = a" by (simp add: a_def)
  have N: "DayFromYear y + 719162 = 146097 * a + 36524 * b + 1461 * c + 365 * e"
    using DayFromYear_since_year_1 [of y] d4 d100 d400 z by (simp add: z_def)
  have l4: "y mod 4 = 0 \<longleftrightarrow> e = 3"
    using succ_mod_eq_0_iff [of z 4 "100 * a + 25 * b + c" e] z bnd y by simp
  have t100: "4 * c + e = 99 \<longleftrightarrow> c = 24 \<and> e = 3"
  proof
    assume "4 * c + e = 99"
    with bnd show "c = 24 \<and> e = 3" by linarith
  qed simp
  have t400: "100 * b + 4 * c + e = 399 \<longleftrightarrow> b = 3 \<and> c = 24 \<and> e = 3"
  proof
    assume "100 * b + 4 * c + e = 399"
    with bnd show "b = 3 \<and> c = 24 \<and> e = 3" by linarith
  qed simp
  have "(z + 1) mod 100 = 0 \<longleftrightarrow> 4 * c + e = 100 - 1"
    using z bnd by (intro succ_mod_eq_0_iff [of z 100 "4 * a + b" "4 * c + e"]) simp_all
  then have l100: "y mod 100 = 0 \<longleftrightarrow> c = 24 \<and> e = 3"
    using t100 y by simp
  have "(z + 1) mod 400 = 0 \<longleftrightarrow> 100 * b + 4 * c + e = 400 - 1"
    using z bnd by (intro succ_mod_eq_0_iff [of z 400 a "100 * b + 4 * c + e"]) simp_all
  then have l400: "y mod 400 = 0 \<longleftrightarrow> b = 3 \<and> c = 24 \<and> e = 3"
    using t400 y by simp
  have leap: "InLeapYear y \<longleftrightarrow> e = 3 \<and> (c = 24 \<longrightarrow> b = 3)"
    unfolding InLeapYear_def using l4 l100 l400 by auto
  have k365: "k \<le> 365" using k by (simp split: if_splits)
  have k364: "k \<le> 364" if "\<not> (e = 3 \<and> (c = 24 \<longrightarrow> b = 3))"
    using k that leap by (simp split: if_splits)
  define n where "n = DayFromYear y + k + 719162"
  have n: "n = 146097 * a + (36524 * b + 1461 * c + 365 * e + k)"
    using N by (simp add: n_def)
  have R: "0 \<le> 36524 * b + 1461 * c + 365 * e + k" "36524 * b + 1461 * c + 365 * e + k < 146097"
    using bnd k k365 k364 by linarith+
  have q400: "n div 146097 = a"
    using n R int_div_pos_eq [of n 146097 a "36524 * b + 1461 * c + 365 * e + k"] by simp
  have r400: "n mod 146097 = 36524 * b + 1461 * c + 365 * e + k"
    using n R int_mod_pos_eq [of n 146097 a "36524 * b + 1461 * c + 365 * e + k"] by simp
  have q100: "min 3 ((36524 * b + 1461 * c + 365 * e + k) div 36524) = b"
  proof (cases "1461 * c + 365 * e + k < 36524")
    case True
    then have "(36524 * b + 1461 * c + 365 * e + k) div 36524 = b"
      using bnd k int_div_pos_eq [of "36524 * b + 1461 * c + 365 * e + k" 36524 b
          "1461 * c + 365 * e + k"] by simp
    with bnd show ?thesis by simp
  next
    case False
    with bnd k365 have top: "c = 24" "e = 3" "k = 365" by linarith+
    with k364 have b3: "b = 3" by fastforce
    have "(36524 * b + 1461 * c + 365 * e + k) div 36524 = 4"
      unfolding top b3 by simp
    with b3 show ?thesis by simp
  qed
  have q4: "(1461 * c + 365 * e + k) div 1461 = c"
    and r4: "(1461 * c + 365 * e + k) mod 1461 = 365 * e + k"
  proof -
    have "365 * e + k < 1461" using bnd k365 k364 by linarith
    moreover have "0 \<le> 365 * e + k" using bnd k by simp
    ultimately show "(1461 * c + 365 * e + k) div 1461 = c"
      and "(1461 * c + 365 * e + k) mod 1461 = 365 * e + k"
      using int_div_pos_eq [of "1461 * c + 365 * e + k" 1461 c "365 * e + k"]
        int_mod_pos_eq [of "1461 * c + 365 * e + k" 1461 c "365 * e + k"] by simp_all
  qed
  have q1: "min 3 ((365 * e + k) div 365) = e"
  proof (cases "k < 365")
    case True
    then have "(365 * e + k) div 365 = e"
      using k int_div_pos_eq [of "365 * e + k" 365 e k] by simp
    with bnd show ?thesis by simp
  next
    case False
    with k365 have k': "k = 365" by simp
    with k364 have e3: "e = 3" by fastforce
    show ?thesis unfolding k' e3 by simp
  qed
  have "YearFromDay (DayFromYear y + k) = 1 + 400 * a + 100 * b + 4 * c + e"
    unfolding YearFromDay_def Let_def n_def [symmetric] q400 r400 q100
    using q4 r4 q1 by (simp add: algebra_simps)
  with z y show ?thesis by simp
qed


lemma month_cases:
  assumes "1 \<le> m" "m \<le> 12"
  shows "m = 1 \<or> m = 2 \<or> m = 3 \<or> m = 4 \<or> m = 5 \<or> m = 6 \<or> m = 7 \<or> m = 8
    \<or> m = 9 \<or> m = 10 \<or> m = 11 \<or> m = (12 :: int)"
  using assms by arith

lemma day_within_year_bounds:
  assumes "calendar_date y m d"
  shows "0 \<le> MonthStart (InLeapYear y) (m - 1) + d - 1"
    and "MonthStart (InLeapYear y) (m - 1) + d - 1 < (if InLeapYear y then 366 else 365)"
proof -
  from assms have m: "1 \<le> m" "m \<le> 12" and d: "1 \<le> d" "d \<le> DaysInMonth y m"
    by (simp_all add: calendar_date_def)
  show "0 \<le> MonthStart (InLeapYear y) (m - 1) + d - 1"
    using month_cases [OF m] d by (elim disjE) (simp_all add: MonthStart_def)
  show "MonthStart (InLeapYear y) (m - 1) + d - 1 < (if InLeapYear y then 366 else 365)"
    using month_cases [OF m] d
    by (elim disjE) (simp_all add: MonthStart_def DaysInMonth_def split: if_splits)
qed

lemma Day_midnight_UTC: "Day (midnight_UTC (y, m, d)) = MakeDay y (m - 1) d"
  by (simp add: Day_def midnight_UTC_def MakeDate_def msPerDay_def)

lemma YearFromTime_midnight_UTC:
  assumes "calendar_date y m d"
  shows "YearFromTime (midnight_UTC (y, m, d)) = y"
proof -
  have "MakeDay y (m - 1) d = DayFromYear y + (MonthStart (InLeapYear y) (m - 1) + d - 1)"
    by (simp add: MakeDay_def)
  then show ?thesis
    using YearFromDay_in_year [OF day_within_year_bounds [OF assms]]
    by (simp add: YearFromTime_def Day_midnight_UTC)
qed

lemma DayWithinYear_midnight_UTC:
  assumes "calendar_date y m d"
  shows "DayWithinYear (midnight_UTC (y, m, d)) = MonthStart (InLeapYear y) (m - 1) + d - 1"
  by (simp add: DayWithinYear_def YearFromTime_midnight_UTC [OF assms] Day_midnight_UTC MakeDay_def)

lemma MonthFromTime_midnight_UTC:
  assumes "calendar_date y m d"
  shows "MonthFromTime (midnight_UTC (y, m, d)) = m - 1"
proof -
  from assms have m: "1 \<le> m" "m \<le> 12" and d: "1 \<le> d" "d \<le> DaysInMonth y m"
    by (simp_all add: calendar_date_def)
  show ?thesis
    unfolding MonthFromTime_def DayWithinYear_midnight_UTC [OF assms]
      YearFromTime_midnight_UTC [OF assms]
    using month_cases [OF m] d
    by (elim disjE) (simp_all add: MonthStart_def DaysInMonth_def Let_def split: if_splits)
qed

lemma DateFromTime_midnight_UTC:
  assumes "calendar_date y m d"
  shows "DateFromTime (midnight_UTC (y, m, d)) = d"
  by (simp add: DateFromTime_def DayWithinYear_midnight_UTC [OF assms]
        YearFromTime_midnight_UTC [OF assms] MonthFromTime_midnight_UTC [OF assms])

lemma time_of_day_midnight_UTC:
  "HourFromTime (midnight_UTC (y, m, d)) = 0"
  "MinFromTime (midnight_UTC (y, m, d)) = 0"
  "SecFromTime (midnight_UTC (y, m, d)) = 0"
  by (simp_all add: HourFromTime_def MinFromTime_def SecFromTime_def midnight_UTC_def
        MakeDate_def msPerDay_def)

lemma two_digits_0: "two_digits 0 = ''00''"
  by (simp add: two_digits_def padStart_def decimal.simps)

lemma toUTCString_midnight_UTC:
  assumes "calendar_date y m d"
  shows "toUTCString (Some (midnight_UTC (y, m, d))) =
           DayName (WeekDay (midnight_UTC (y, m, d))) @ '', '' @ two_digits d @ '' ''
             @ MonthName (m - 1) @ '' '' @ YearString y @ '' 00:00:00 GMT''"
  by (simp add: toUTCString_def YearFromTime_midnight_UTC [OF assms]
        MonthFromTime_midnight_UTC [OF assms] DateFromTime_midnight_UTC [OF assms]
        time_of_day_midnight_UTC two_digits_0)

lemma calendar_date_day_after:
  assumes "calendar_date y m d"
  shows "case day_after (y, m, d) of (y', m', d') \<Rightarrow> calendar_date y' m' d'"
  using assms by (auto simp: calendar_date_def day_after_def DaysInMonth_def)

section \<open>The availability check\<close>

lemma handler_available_not_NotFound:
  assumes "\<not> num_less (Some now) (availableSince other_formats D)"
  shows "\<not> isNotFound (fst (GetSubscriptionsFeedHandler other_formats tableService table now serviceId D))"
  unfolding handler_available [OF assms]
  by (simp add: isNotFound_def split: sum.splits)

lemma handler_isNotFound:
  "isNotFound (fst (GetSubscriptionsFeedHandler other_formats tableService table now serviceId D))
     \<longleftrightarrow> num_less (Some now) (availableSince other_formats D)"
  using handler_available_not_NotFound [of now other_formats D tableService table serviceId]
    handler_not_available [of now other_formats D tableService table serviceId]
  by (auto simp: isNotFound_def)

lemma example_instants:
  "Date_parse other_formats ''2021-05-01T23:00:00Z'' = Some 1619910000000"
  "Date_parse other_formats ''2021-05-02T00:00:01Z'' = Some 1619913601000"
  "Date_parse other_formats ''2021-05-02T00:00:00Z'' = Some 1619913600000"
  "availableSince other_formats ''2021-05-01'' = Some 1619913600000"
  "toUTCString (Some 1619913600000) = ''Sun, 02 May 2021 00:00:00 GMT''"
  by code_simp+

text \<open>
  Claim C4. For a date \<open>D\<close> of the calendar, the request is answered with the not-found
  response, whose detail names the date and the availability instant (the day after \<open>D\<close>
  at 00:00:00 GMT), if and only if the current time is strictly before midnight UTC of the
  day after \<open>D\<close>. For 2021-05-01
  the instant is 2021-05-02T00:00:00Z: at 2021-05-01T23:00:00Z the request is rejected with
  that instant, at 2021-05-02T00:00:01Z it passes the check.
\<close>

theorem C4_availability_gate:
  "(ShortDate_fields D = Some (y, m, d) \<and> calendar_date y m d \<longrightarrow>
      (isNotFound (fst (GetSubscriptionsFeedHandler other_formats tableService table now serviceId D))
         \<longleftrightarrow> now < midnight_UTC (day_after (y, m, d)))
      \<and> (now < midnight_UTC (day_after (y, m, d)) \<longrightarrow>
           fst (GetSubscriptionsFeedHandler other_formats tableService table now serviceId D) =
             Inr (ResponseErrorNotFound ''Data not available yet''
                    (''Subscription data for '' @ D @ '' will be available from ''
                       @ toUTCString (Some (midnight_UTC (day_after (y, m, d)))))))
      \<and> (case day_after (y, m, d) of (y', m', d') \<Rightarrow>
            toUTCString (Some (midnight_UTC (day_after (y, m, d)))) =
              DayName (WeekDay (midnight_UTC (y', m', d'))) @ '', '' @ two_digits d' @ '' ''
                @ MonthName (m' - 1) @ '' '' @ YearString y' @ '' 00:00:00 GMT''))
   \<and> Date_parse other_formats ''2021-05-01T23:00:00Z'' = Some 1619910000000
   \<and> Date_parse other_formats ''2021-05-02T00:00:01Z'' = Some 1619913601000
   \<and> Date_parse other_formats ''2021-05-02T00:00:00Z'' = Some (midnight_UTC (day_after (2021, 5, 1)))
   \<and> fst (GetSubscriptionsFeedHandler other_formats tableService table 1619910000000 serviceId ''2021-05-01'') =
       Inr (ResponseErrorNotFound ''Data not available yet''
         ''Subscription data for 2021-05-01 will be available from Sun, 02 May 2021 00:00:00 GMT'')
   \<and> \<not> isNotFound
         (fst (GetSubscriptionsFeedHandler other_formats tableService table 1619913601000 serviceId
                 ''2021-05-01''))"
proof (intro conjI impI)
  assume h: "ShortDate_fields D = Some (y, m, d) \<and> calendar_date y m d"
  then have a: "availableSince other_formats D = Some (midnight_UTC (day_after (y, m, d)))"
    by (simp add: availableSince_calendar_date)
  show "isNotFound (fst (GetSubscriptionsFeedHandler other_formats tableService table now serviceId D))
          \<longleftrightarrow> now < midnight_UTC (day_after (y, m, d))"
    by (simp add: handler_isNotFound a num_less_def)
  assume "now < midnight_UTC (day_after (y, m, d))"
  then have "num_less (Some now) (availableSince other_formats D)"
    by (simp add: a num_less_def)
  from handler_not_available [OF this, of tableService table serviceId]
  show "fst (GetSubscriptionsFeedHandler other_formats tableService table now serviceId D) =
          Inr (ResponseErrorNotFound ''Data not available yet''
                 (''Subscription data for '' @ D @ '' will be available from ''
                    @ toUTCString (Some (midnight_UTC (day_after (y, m, d))))))"
    by (simp add: a)
next
  assume h: "ShortDate_fields D = Some (y, m, d) \<and> calendar_date y m d"
  obtain y' m' d' where da: "day_after (y, m, d) = (y', m', d')"
    by (cases "day_after (y, m, d)")
  with h calendar_date_day_after [of y m d] have "calendar_date y' m' d'"
    by simp
  from toUTCString_midnight_UTC [OF this] da
  show "case day_after (y, m, d) of (y', m', d') \<Rightarrow>
          toUTCString (Some (midnight_UTC (day_after (y, m, d)))) =
            DayName (WeekDay (midnight_UTC (y', m', d'))) @ '', '' @ two_digits d' @ '' ''
              @ MonthName (m' - 1) @ '' '' @ YearString y' @ '' 00:00:00 GMT''"
    by simp
next
  show "Date_parse other_formats ''2021-05-01T23:00:00Z'' = Some 1619910000000"
    by (rule example_instants)
  show "Date_parse other_formats ''2021-05-02T00:00:01Z'' = Some 1619913601000"
    by (rule example_instants)
  show "Date_parse other_formats ''2021-05-02T00:00:00Z'' = Some (midnight_UTC (day_after (2021, 5, 1)))"
    by code_simp
  have "num_less (Some 1619910000000) (availableSince other_formats ''2021-05-01'')"
    by (simp add: example_instants num_less_def)
  from handler_not_available [OF this, of tableService table serviceId]
  show "fst (GetSubscriptionsFeedHandler other_formats tableService table 1619910000000 serviceId
               ''2021-05-01'') =
          Inr (ResponseErrorNotFound ''Data not available yet''
            ''Subscription data for 2021-05-01 will be available from Sun, 02 May 2021 00:00:00 GMT'')"
    by (simp add: example_instants)
  have "\<not> num_less (Some 1619913601000) (availableSince other_formats ''2021-05-01'')"
    by (simp add: example_instants num_less_def)
  then show "\<not> isNotFound
         (fst (GetSubscriptionsFeedHandler other_formats tableService table 1619913601000 serviceId
                 ''2021-05-01''))"
    by (rule handler_available_not_NotFound)
qed

theorem C4_availability_gate_witness:
  "ShortDate_fields ''2021-05-01'' = Some (2021, 5, 1) \<and> calendar_date 2021 5 1
   \<and> 1619910000000 < midnight_UTC (day_after (2021, 5, 1))
   \<and> isNotFound (fst (GetSubscriptionsFeedHandler no_other_format store_abc ''SubscriptionsFeedByDay''
        1619910000000 ''svc'' ''2021-05-01''))
   \<and> \<not> 1619913601000 < midnight_UTC (day_after (2021, 5, 1))
   \<and> \<not> isNotFound (fst (GetSubscriptionsFeedHandler no_other_format store_abc ''SubscriptionsFeedByDay''
        1619913601000 ''svc'' ''2021-05-01''))"
proof -
  have h: "ShortDate_fields ''2021-05-01'' = Some (2021, 5, 1) \<and> calendar_date 2021 5 1"
    by code_simp
  have lt: "1619910000000 < midnight_UTC (day_after (2021, 5, 1))"
    by code_simp
  have ge: "\<not> 1619913601000 < midnight_UTC (day_after (2021, 5, 1))"
    by code_simp
  from h lt ge
    C4_availability_gate [of "''2021-05-01''" 2021 5 1 no_other_format store_abc "''SubscriptionsFeedByDay''"
      1619910000000 "''svc''"]
    C4_availability_gate [of "''2021-05-01''" 2021 5 1 no_other_format store_abc "''SubscriptionsFeedByDay''"
      1619913601000 "''svc''"]
  show ?thesis by blast
qed

section \<open>Claims on the store queries\<close>

lemma remdups_block:
  "xs \<noteq> [] \<Longrightarrow> set xs \<subseteq> {a} \<Longrightarrow> a \<notin> set ys \<Longrightarrow> remdups (xs @ ys) = a # remdups ys"
proof (induction xs)
  case Nil
  then show ?case by simp
next
  case (Cons x xs)
  then show ?case by (cases xs) auto
qed

lemma queried_round_trips:
  assumes "tableService table (PartitionKeyEquals key) \<noteq> []"
    and "PartitionKeyEquals key \<notin> fetchQuery ` set fetches"
  shows "queried (round_trips tableService table key @ fetches)
           = PartitionKeyEquals key # queried fetches"
proof -
  have "map fetchQuery (round_trips tableService table key) \<noteq> []"
    using round_trips_nonempty [of tableService table key] assms(1) by simp
  moreover have "set (map fetchQuery (round_trips tableService table key))
                   \<subseteq> {PartitionKeyEquals key}"
    using round_trips_fetches [of tableService table key] by auto
  moreover have "PartitionKeyEquals key \<notin> set (map fetchQuery fetches)"
    using assms(2) by simp
  ultimately show ?thesis
    unfolding queried_def map_append by (rule remdups_block)
qed

lemma handler_fetches:
  "set (snd (GetSubscriptionsFeedHandler other_formats tableService table now serviceId D))
     \<subseteq> set (round_trips tableService table (''P-'' @ D @ ''-S''))
       \<union> set (round_trips tableService table (''S-'' @ D @ ''-'' @ serviceId @ ''-S''))
       \<union> set (round_trips tableService table (''S-'' @ D @ ''-'' @ serviceId @ ''-U''))"
proof (cases "num_less (Some now) (availableSince other_formats D)")
  case True
  then show ?thesis by (simp add: handler_not_available)
next
  case False
  show ?thesis
    unfolding handler_available [OF False]
    by (auto split: sum.splits)
qed

text \<open>
  Claim C5 says that the profile-creation key is \<^verbatim>\<open>P-{date}\<close>. On 2021-05-01 the handler
  queries \<^verbatim>\<open>P-2021-05-01-S\<close> and never \<^verbatim>\<open>P-2021-05-01\<close>.
\<close>

theorem C5_counterexample:
  "queried (snd (GetSubscriptionsFeedHandler no_other_format store_abc ''SubscriptionsFeedByDay'' 1619913600000
      ''svc'' ''2021-05-01''))
     = [PartitionKeyEquals ''P-2021-05-01-S'', PartitionKeyEquals ''S-2021-05-01-svc-S'',
        PartitionKeyEquals ''S-2021-05-01-svc-U'']
   \<and> PartitionKeyEquals ''P-2021-05-01''
       \<notin> set (queried (snd (GetSubscriptionsFeedHandler no_other_format store_abc ''SubscriptionsFeedByDay''
             1619913600000 ''svc'' ''2021-05-01'')))"
  by code_simp

text \<open>
  Claim C5, amended. Every round-trip of the handler goes to the subscriptions feed table
  with one of three partition keys: \<^verbatim>\<open>P-{date}-S\<close> for profile creation (no scope, event
  type \<^verbatim>\<open>S\<close>), \<^verbatim>\<open>S-{date}-{serviceId}-S\<close> for subscriptions and
  \<^verbatim>\<open>S-{date}-{serviceId}-U\<close> for unsubscriptions. When the handler answers with a feed
  and the store has at least one page for each, these three are queried, in this order.
\<close>

theorem C5_partition_keys:
  "set (snd (GetSubscriptionsFeedHandler other_formats tableService table now serviceId D))
     \<subseteq> {f. fetchTable f = table
            \<and> fetchQuery f \<in> {PartitionKeyEquals (''P-'' @ D @ ''-S''),
                               PartitionKeyEquals (''S-'' @ D @ ''-'' @ serviceId @ ''-S''),
                               PartitionKeyEquals (''S-'' @ D @ ''-'' @ serviceId @ ''-U'')}}
   \<and> (fst (GetSubscriptionsFeedHandler other_formats tableService table now serviceId D)
          = Inr (ResponseSuccessJson feed)
       \<and> tableService table (PartitionKeyEquals (''P-'' @ D @ ''-S'')) \<noteq> []
       \<and> tableService table (PartitionKeyEquals (''S-'' @ D @ ''-'' @ serviceId @ ''-S'')) \<noteq> []
       \<and> tableService table (PartitionKeyEquals (''S-'' @ D @ ''-'' @ serviceId @ ''-U'')) \<noteq> []
       \<longrightarrow> queried (snd (GetSubscriptionsFeedHandler other_formats tableService table now serviceId D))
             = [PartitionKeyEquals (''P-'' @ D @ ''-S''),
                PartitionKeyEquals (''S-'' @ D @ ''-'' @ serviceId @ ''-S''),
                PartitionKeyEquals (''S-'' @ D @ ''-'' @ serviceId @ ''-U'')])"
proof (intro conjI impI)
  show "set (snd (GetSubscriptionsFeedHandler other_formats tableService table now serviceId D))
     \<subseteq> {f. fetchTable f = table
            \<and> fetchQuery f \<in> {PartitionKeyEquals (''P-'' @ D @ ''-S''),
                               PartitionKeyEquals (''S-'' @ D @ ''-'' @ serviceId @ ''-S''),
                               PartitionKeyEquals (''S-'' @ D @ ''-'' @ serviceId @ ''-U'')}}"
    using handler_fetches [of other_formats tableService table now serviceId D]
      round_trips_fetches [of tableService table "''P-'' @ D @ ''-S''"]
      round_trips_fetches [of tableService table "''S-'' @ D @ ''-'' @ serviceId @ ''-S''"]
      round_trips_fetches [of tableService table "''S-'' @ D @ ''-'' @ serviceId @ ''-U''"]
    by blast
next
  let ?H = "GetSubscriptionsFeedHandler other_formats tableService table now serviceId D"
  let ?kp = "''P-'' @ D @ ''-S''"
  let ?ks = "''S-'' @ D @ ''-'' @ serviceId @ ''-S''"
  let ?ku = "''S-'' @ D @ ''-'' @ serviceId @ ''-U''"
  assume h: "fst ?H = Inr (ResponseSuccessJson feed)
       \<and> tableService table (PartitionKeyEquals ?kp) \<noteq> []
       \<and> tableService table (PartitionKeyEquals ?ks) \<noteq> []
       \<and> tableService table (PartitionKeyEquals ?ku) \<noteq> []"
  have avail: "\<not> num_less (Some now) (availableSince other_formats D)"
  proof
    assume "num_less (Some now) (availableSince other_formats D)"
    from handler_not_available [OF this, of tableService table serviceId] h
    show False by simp
  qed
  from h have "snd ?H = round_trips tableService table ?kp
                  @ round_trips tableService table ?ks @ round_trips tableService table ?ku"
    unfolding handler_available [OF avail] by (auto split: sum.splits)
  moreover have "queried (round_trips tableService table ?ku @ []) = [PartitionKeyEquals ?ku]"
    using h by (subst queried_round_trips) (simp_all add: queried_def)
  moreover have "PartitionKeyEquals ?ks
      \<notin> fetchQuery ` set (round_trips tableService table ?ku @ [])"
    using round_trips_fetches [of tableService table ?ku] by auto
  moreover have "PartitionKeyEquals ?kp
      \<notin> fetchQuery ` set (round_trips tableService table ?ks @ round_trips tableService table ?ku)"
    using round_trips_fetches [of tableService table ?ku]
      round_trips_fetches [of tableService table ?ks] by auto
  ultimately show "queried (snd ?H)
      = [PartitionKeyEquals ?kp, PartitionKeyEquals ?ks, PartitionKeyEquals ?ku]"
    using h by (simp add: queried_round_trips)
qed

theorem C5_partition_keys_witness:
  "fst (GetSubscriptionsFeedHandler no_other_format store_abc ''SubscriptionsFeedByDay'' 1619913600000 ''svc''
          ''2021-05-01'')
     = Inr (ResponseSuccessJson
             \<lparr> dateUTC = ''2021-05-01'', subscriptions = [''a'', ''c''], unsubscriptions = [] \<rparr>)
   \<and> store_abc ''SubscriptionsFeedByDay'' (PartitionKeyEquals ''P-2021-05-01-S'') \<noteq> []
   \<and> store_abc ''SubscriptionsFeedByDay'' (PartitionKeyEquals ''S-2021-05-01-svc-S'') \<noteq> []
   \<and> store_abc ''SubscriptionsFeedByDay'' (PartitionKeyEquals ''S-2021-05-01-svc-U'') \<noteq> []
   \<and> queried (snd (GetSubscriptionsFeedHandler no_other_format store_abc ''SubscriptionsFeedByDay''
          1619913600000 ''svc'' ''2021-05-01''))
       = [PartitionKeyEquals ''P-2021-05-01-S'', PartitionKeyEquals ''S-2021-05-01-svc-S'',
          PartitionKeyEquals ''S-2021-05-01-svc-U'']"
proof -
  have h: "fst (GetSubscriptionsFeedHandler no_other_format store_abc ''SubscriptionsFeedByDay'' 1619913600000
                  ''svc'' ''2021-05-01'')
     = Inr (ResponseSuccessJson
             \<lparr> dateUTC = ''2021-05-01'', subscriptions = [''a'', ''c''], unsubscriptions = [] \<rparr>)
   \<and> store_abc ''SubscriptionsFeedByDay'' (PartitionKeyEquals ''P-2021-05-01-S'') \<noteq> []
   \<and> store_abc ''SubscriptionsFeedByDay'' (PartitionKeyEquals ''S-2021-05-01-svc-S'') \<noteq> []
   \<and> store_abc ''SubscriptionsFeedByDay'' (PartitionKeyEquals ''S-2021-05-01-svc-U'') \<noteq> []"
    by code_simp
  from h C5_partition_keys [of no_other_format store_abc "''SubscriptionsFeedByDay''" 1619913600000 "''svc''"
      "''2021-05-01''"
      "\<lparr> dateUTC = ''2021-05-01'', subscriptions = [''a'', ''c''], unsubscriptions = [] \<rparr>"]
  show ?thesis by simp
qed

section \<open>Claims on failures and on the order of the check\<close>

text \<open>
  Claim C6. Once the availability check is passed, a failure of any of the three fetches
  fails the whole call with the error of that fetch (the first to fail, the fetches being
  awaited in the order profile, subscriptions, unsubscriptions), and no feed is returned,
  whatever the other fetches delivered. In particular a failure on the second page of the
  subscriptions scan fails the call when the profile scan has succeeded.
\<close>

theorem C6_fail_fast:
  assumes "\<not> num_less (Some now) (availableSince other_formats D)"
  shows "(fetched tableService table (''P-'' @ D @ ''-S'') = Inl e \<longrightarrow>
            fst (GetSubscriptionsFeedHandler other_formats tableService table now serviceId D) = Inl e)
   \<and> (\<not> isl (fetched tableService table (''P-'' @ D @ ''-S''))
       \<and> fetched tableService table (''S-'' @ D @ ''-'' @ serviceId @ ''-S'') = Inl e \<longrightarrow>
            fst (GetSubscriptionsFeedHandler other_formats tableService table now serviceId D) = Inl e)
   \<and> (\<not> isl (fetched tableService table (''P-'' @ D @ ''-S''))
       \<and> \<not> isl (fetched tableService table (''S-'' @ D @ ''-'' @ serviceId @ ''-S''))
       \<and> fetched tableService table (''S-'' @ D @ ''-'' @ serviceId @ ''-U'') = Inl e \<longrightarrow>
            fst (GetSubscriptionsFeedHandler other_formats tableService table now serviceId D) = Inl e)
   \<and> (isl (fetched tableService table (''P-'' @ D @ ''-S''))
       \<or> isl (fetched tableService table (''S-'' @ D @ ''-'' @ serviceId @ ''-S''))
       \<or> isl (fetched tableService table (''S-'' @ D @ ''-'' @ serviceId @ ''-U'')) \<longrightarrow>
            isl (fst (GetSubscriptionsFeedHandler other_formats tableService table now serviceId D)))
   \<and> (\<not> isl (fetched tableService table (''P-'' @ D @ ''-S''))
       \<and> tableService table (PartitionKeyEquals (''S-'' @ D @ ''-'' @ serviceId @ ''-S''))
           = Inr page # Inl e # rest \<longrightarrow>
            fst (GetSubscriptionsFeedHandler other_formats tableService table now serviceId D) = Inl e)"
proof -
  have page2: "fetched tableService table (''S-'' @ D @ ''-'' @ serviceId @ ''-S'') = Inl e"
    if "tableService table (PartitionKeyEquals (''S-'' @ D @ ''-'' @ serviceId @ ''-S''))
           = Inr page # Inl e # rest"
    using that fetched_page_failure [of tableService table
        "''S-'' @ D @ ''-'' @ serviceId @ ''-S''" "[page]" e rest]
    by simp
  show ?thesis
    unfolding handler_available [OF assms]
    using page2 by (auto split: sum.splits)
qed

theorem C6_fail_fast_witness:
  "\<not> num_less (Some 1619913600000) (availableSince no_other_format ''2021-05-01'')
   \<and> \<not> isl (fetched store_sub_page2_fails ''SubscriptionsFeedByDay'' ''P-2021-05-01-S'')
   \<and> \<not> isl (fetched store_sub_page2_fails ''SubscriptionsFeedByDay'' ''S-2021-05-01-svc-U'')
   \<and> store_sub_page2_fails ''SubscriptionsFeedByDay'' (PartitionKeyEquals ''S-2021-05-01-svc-S'')
        = Inr [user_record ''S-2021-05-01-svc-S'' ''b''] # Inl (StoreQueryError ''throttled'')
            # [Inr [user_record ''S-2021-05-01-svc-S'' ''c'']]
   \<and> fetched store_sub_page2_fails ''SubscriptionsFeedByDay'' ''S-2021-05-01-svc-S''
        = Inl (StoreQueryError ''throttled'')
   \<and> fst (GetSubscriptionsFeedHandler no_other_format store_sub_page2_fails ''SubscriptionsFeedByDay''
        1619913600000 ''svc'' ''2021-05-01'') = Inl (StoreQueryError ''throttled'')
   \<and> fetched store_profile_fails ''SubscriptionsFeedByDay'' ''P-2021-05-01-S''
        = Inl (StoreQueryError ''timeout'')
   \<and> \<not> isl (fetched store_profile_fails ''SubscriptionsFeedByDay'' ''S-2021-05-01-svc-S'')
   \<and> \<not> isl (fetched store_profile_fails ''SubscriptionsFeedByDay'' ''S-2021-05-01-svc-U'')
   \<and> fst (GetSubscriptionsFeedHandler no_other_format store_profile_fails ''SubscriptionsFeedByDay''
        1619913600000 ''svc'' ''2021-05-01'') = Inl (StoreQueryError ''timeout'')
   \<and> \<not> isl (fetched store_unsub_page2_fails ''SubscriptionsFeedByDay'' ''P-2021-05-01-S'')
   \<and> \<not> isl (fetched store_unsub_page2_fails ''SubscriptionsFeedByDay'' ''S-2021-05-01-svc-S'')
   \<and> fetched store_unsub_page2_fails ''SubscriptionsFeedByDay'' ''S-2021-05-01-svc-U''
        = Inl (StoreQueryError ''reset'')
   \<and> fst (GetSubscriptionsFeedHandler no_other_format store_unsub_page2_fails ''SubscriptionsFeedByDay''
        1619913600000 ''svc'' ''2021-05-01'') = Inl (StoreQueryError ''reset'')"
proof -
  have g: "\<not> num_less (Some 1619913600000) (availableSince no_other_format ''2021-05-01'')"
    by code_simp
  have h1: "\<not> isl (fetched store_sub_page2_fails ''SubscriptionsFeedByDay'' ''P-2021-05-01-S'')
   \<and> \<not> isl (fetched store_sub_page2_fails ''SubscriptionsFeedByDay'' ''S-2021-05-01-svc-U'')
   \<and> store_sub_page2_fails ''SubscriptionsFeedByDay'' (PartitionKeyEquals ''S-2021-05-01-svc-S'')
        = Inr [user_record ''S-2021-05-01-svc-S'' ''b''] # Inl (StoreQueryError ''throttled'')
            # [Inr [user_record ''S-2021-05-01-svc-S'' ''c'']]
   \<and> fetched store_sub_page2_fails ''SubscriptionsFeedByDay'' ''S-2021-05-01-svc-S''
        = Inl (StoreQueryError ''throttled'')"
    by code_simp
  have h2: "fetched store_profile_fails ''SubscriptionsFeedByDay'' ''P-2021-05-01-S''
        = Inl (StoreQueryError ''timeout'')
   \<and> \<not> isl (fetched store_profile_fails ''SubscriptionsFeedByDay'' ''S-2021-05-01-svc-S'')
   \<and> \<not> isl (fetched store_profile_fails ''SubscriptionsFeedByDay'' ''S-2021-05-01-svc-U'')"
    by code_simp
  have h3: "\<not> isl (fetched store_unsub_page2_fails ''SubscriptionsFeedByDay'' ''P-2021-05-01-S'')
   \<and> \<not> isl (fetched store_unsub_page2_fails ''SubscriptionsFeedByDay'' ''S-2021-05-01-svc-S'')
   \<and> fetched store_unsub_page2_fails ''SubscriptionsFeedByDay'' ''S-2021-05-01-svc-U''
        = Inl (StoreQueryError ''reset'')"
    by code_simp
  have r1: "fst (GetSubscriptionsFeedHandler no_other_format store_sub_page2_fails ''SubscriptionsFeedByDay''
        1619913600000 ''svc'' ''2021-05-01'') = Inl (StoreQueryError ''throttled'')"
    using h1 C6_fail_fast [OF g, where tableService = store_sub_page2_fails
        and table = "''SubscriptionsFeedByDay''" and e = "StoreQueryError ''throttled''"
        and serviceId = "''svc''" and page = "[user_record ''S-2021-05-01-svc-S'' ''b'']"
        and rest = "[Inr [user_record ''S-2021-05-01-svc-S'' ''c'']]", simplified]
    by blast
  have r2: "fst (GetSubscriptionsFeedHandler no_other_format store_profile_fails ''SubscriptionsFeedByDay''
        1619913600000 ''svc'' ''2021-05-01'') = Inl (StoreQueryError ''timeout'')"
    using h2 C6_fail_fast [OF g, where tableService = store_profile_fails
        and table = "''SubscriptionsFeedByDay''" and e = "StoreQueryError ''timeout''"
        and serviceId = "''svc''", simplified]
    by blast
  have r3: "fst (GetSubscriptionsFeedHandler no_other_format store_unsub_page2_fails ''SubscriptionsFeedByDay''
        1619913600000 ''svc'' ''2021-05-01'') = Inl (StoreQueryError ''reset'')"
    using h3 C6_fail_fast [OF g, where tableService = store_unsub_page2_fails
        and table = "''SubscriptionsFeedByDay''" and e = "StoreQueryError ''reset''"
        and serviceId = "''svc''", simplified]
    by blast
  from g h1 h2 h3 r1 r2 r3 show ?thesis by blast
qed

text \<open>
  Claim C8. The availability check comes before every scan: whenever the current time is
  strictly before midnight UTC of the day after the requested date, the handler returns
  without a single round-trip to the store.
\<close>

theorem C8_no_query_before_available:
  "(num_less (Some now) (availableSince other_formats D) \<longrightarrow>
      snd (GetSubscriptionsFeedHandler other_formats tableService table now serviceId D) = [])
   \<and> (ShortDate_fields D = Some (y, m, d) \<and> calendar_date y m d
       \<and> now < midnight_UTC (day_after (y, m, d)) \<longrightarrow>
      snd (GetSubscriptionsFeedHandler other_formats tableService table now serviceId D) = [])"
  by (auto simp: handler_not_available availableSince_calendar_date num_less_def)

theorem C8_no_query_before_available_witness:
  "ShortDate_fields ''2021-05-01'' = Some (2021, 5, 1) \<and> calendar_date 2021 5 1
   \<and> 1619913599999 < midnight_UTC (day_after (2021, 5, 1))
   \<and> num_less (Some 1619913599999) (availableSince no_other_format ''2021-05-01'')
   \<and> snd (GetSubscriptionsFeedHandler no_other_format store_abc ''SubscriptionsFeedByDay'' 1619913599999
        ''svc'' ''2021-05-01'') = []"
proof -
  have h: "ShortDate_fields ''2021-05-01'' = Some (2021, 5, 1) \<and> calendar_date 2021 5 1
     \<and> 1619913599999 < midnight_UTC (day_after (2021, 5, 1))
     \<and> num_less (Some 1619913599999) (availableSince no_other_format ''2021-05-01'')"
    by code_simp
  from h C8_no_query_before_available [of 1619913599999 no_other_format "''2021-05-01''" store_abc
      "''SubscriptionsFeedByDay''" "''svc''" 2021 5 1]
  show ?thesis by blast
qed

section \<open>Claims on repeated and related runs\<close>

text \<open>
  Claim C9. Running the reconciliation again on unchanged data gives the same feed. Two
  runs on the same store give the same outcome at whatever instants they are made, as long
  as both are on the same side of the availability check; and two runs past the check
  whose three fetched sets have the same members (delivered in any order and on any pages)
  return feeds for the same date with the same subscriptions and the same unsubscriptions,
  as sets.
\<close>

theorem C9_rerun_same_feed:
  "((num_less (Some now1) (availableSince other_formats D) \<longleftrightarrow> num_less (Some now2) (availableSince other_formats D)) \<longrightarrow>
      GetSubscriptionsFeedHandler other_formats tableService table now1 serviceId D
        = GetSubscriptionsFeedHandler other_formats tableService table now2 serviceId D)
   \<and> (\<not> num_less (Some now1) (availableSince other_formats D) \<and> \<not> num_less (Some now2) (availableSince other_formats D)
       \<and> fetched tableService1 table (''P-'' @ D @ ''-S'') = Inr P1
       \<and> fetched tableService2 table (''P-'' @ D @ ''-S'') = Inr P2
       \<and> members P1 = members P2
       \<and> fetched tableService1 table (''S-'' @ D @ ''-'' @ serviceId @ ''-S'') = Inr S1
       \<and> fetched tableService2 table (''S-'' @ D @ ''-'' @ serviceId @ ''-S'') = Inr S2
       \<and> members S1 = members S2
       \<and> fetched tableService1 table (''S-'' @ D @ ''-'' @ serviceId @ ''-U'') = Inr U1
       \<and> fetched tableService2 table (''S-'' @ D @ ''-'' @ serviceId @ ''-U'') = Inr U2
       \<and> members U1 = members U2 \<longrightarrow>
      (\<exists>feed1 feed2.
          fst (GetSubscriptionsFeedHandler other_formats tableService1 table now1 serviceId D)
            = Inr (ResponseSuccessJson feed1)
        \<and> fst (GetSubscriptionsFeedHandler other_formats tableService2 table now2 serviceId D)
            = Inr (ResponseSuccessJson feed2)
        \<and> dateUTC feed1 = dateUTC feed2
        \<and> set (subscriptions feed1) = set (subscriptions feed2)
        \<and> set (unsubscriptions feed1) = set (unsubscriptions feed2)))"
proof (intro conjI impI)
  assume "num_less (Some now1) (availableSince other_formats D) \<longleftrightarrow> num_less (Some now2) (availableSince other_formats D)"
  then show "GetSubscriptionsFeedHandler other_formats tableService table now1 serviceId D
        = GetSubscriptionsFeedHandler other_formats tableService table now2 serviceId D"
    by (simp add: GetSubscriptionsFeedHandler_def)
next
  assume h: "\<not> num_less (Some now1) (availableSince other_formats D) \<and> \<not> num_less (Some now2) (availableSince other_formats D)
       \<and> fetched tableService1 table (''P-'' @ D @ ''-S'') = Inr P1
       \<and> fetched tableService2 table (''P-'' @ D @ ''-S'') = Inr P2
       \<and> members P1 = members P2
       \<and> fetched tableService1 table (''S-'' @ D @ ''-'' @ serviceId @ ''-S'') = Inr S1
       \<and> fetched tableService2 table (''S-'' @ D @ ''-'' @ serviceId @ ''-S'') = Inr S2
       \<and> members S1 = members S2
       \<and> fetched tableService1 table (''S-'' @ D @ ''-'' @ serviceId @ ''-U'') = Inr U1
       \<and> fetched tableService2 table (''S-'' @ D @ ''-'' @ serviceId @ ''-U'') = Inr U2
       \<and> members U1 = members U2"
  then have 1: "fst (GetSubscriptionsFeedHandler other_formats tableService1 table now1 serviceId D)
            = Inr (ResponseSuccessJson (feedJson D P1 S1 U1))"
    by (simp add: handler_success)
  from h have 2: "fst (GetSubscriptionsFeedHandler other_formats tableService2 table now2 serviceId D)
            = Inr (ResponseSuccessJson (feedJson D P2 S2 U2))"
    by (simp add: handler_success)
  from h have 3: "dateUTC (feedJson D P1 S1 U1) = dateUTC (feedJson D P2 S2 U2)
      \<and> set (subscriptions (feedJson D P1 S1 U1)) = set (subscriptions (feedJson D P2 S2 U2))
      \<and> set (unsubscriptions (feedJson D P1 S1 U1)) = set (unsubscriptions (feedJson D P2 S2 U2))"
    by (simp add: dateUTC_feedJson set_subscriptions_feedJson set_unsubscriptions_feedJson)
  from 1 2 3 show "\<exists>feed1 feed2.
          fst (GetSubscriptionsFeedHandler other_formats tableService1 table now1 serviceId D)
            = Inr (ResponseSuccessJson feed1)
        \<and> fst (GetSubscriptionsFeedHandler other_formats tableService2 table now2 serviceId D)
            = Inr (ResponseSuccessJson feed2)
        \<and> dateUTC feed1 = dateUTC feed2
        \<and> set (subscriptions feed1) = set (subscriptions feed2)
        \<and> set (unsubscriptions feed1) = set (unsubscriptions feed2)"
    by blast
qed

theorem C9_rerun_same_feed_witness:
  "\<not> num_less (Some 1619913600000) (availableSince no_other_format ''2021-05-01'')
   \<and> \<not> num_less (Some 1619999999000) (availableSince no_other_format ''2021-05-01'')
   \<and> fetched store_abcd ''SubscriptionsFeedByDay'' ''P-2021-05-01-S''
        = Inr (Set_of [''a'', ''b'', ''d''])
   \<and> fetched store_abcd_reordered ''SubscriptionsFeedByDay'' ''P-2021-05-01-S''
        = Inr (Set_of [''d'', ''b'', ''a''])
   \<and> members (Set_of [''a'', ''b'', ''d'']) = members (Set_of [''d'', ''b'', ''a''])
   \<and> fetched store_abcd ''SubscriptionsFeedByDay'' ''S-2021-05-01-svc-S''
        = Inr (Set_of [''b'', ''c''])
   \<and> fetched store_abcd_reordered ''SubscriptionsFeedByDay'' ''S-2021-05-01-svc-S''
        = Inr (Set_of [''c'', ''b''])
   \<and> members (Set_of [''b'', ''c'']) = members (Set_of [''c'', ''b''])
   \<and> fetched store_abcd ''SubscriptionsFeedByDay'' ''S-2021-05-01-svc-U'' = Inr (Set_of [''b''])
   \<and> fetched store_abcd_reordered ''SubscriptionsFeedByDay'' ''S-2021-05-01-svc-U''
        = Inr (Set_of [''b''])
   \<and> GetSubscriptionsFeedHandler no_other_format store_abcd ''SubscriptionsFeedByDay'' 1619913600000 ''svc''
         ''2021-05-01''
       = GetSubscriptionsFeedHandler no_other_format store_abcd ''SubscriptionsFeedByDay'' 1619999999000 ''svc''
           ''2021-05-01''
   \<and> (\<exists>feed1 feed2.
          fst (GetSubscriptionsFeedHandler no_other_format store_abcd ''SubscriptionsFeedByDay'' 1619913600000
                 ''svc'' ''2021-05-01'') = Inr (ResponseSuccessJson feed1)
        \<and> fst (GetSubscriptionsFeedHandler no_other_format store_abcd_reordered ''SubscriptionsFeedByDay''
                 1619999999000 ''svc'' ''2021-05-01'') = Inr (ResponseSuccessJson feed2)
        \<and> dateUTC feed1 = dateUTC feed2
        \<and> set (subscriptions feed1) = set (subscriptions feed2)
        \<and> set (unsubscriptions feed1) = set (unsubscriptions feed2))
   \<and> fst (GetSubscriptionsFeedHandler no_other_format store_abcd ''SubscriptionsFeedByDay'' 1619913600000
            ''svc'' ''2021-05-01'')
       = Inr (ResponseSuccessJson \<lparr> dateUTC = ''2021-05-01'',
                subscriptions = [''a'', ''d'', ''c''], unsubscriptions = [] \<rparr>)
   \<and> fst (GetSubscriptionsFeedHandler no_other_format store_abcd_reordered ''SubscriptionsFeedByDay''
            1619999999000 ''svc'' ''2021-05-01'')
       = Inr (ResponseSuccessJson \<lparr> dateUTC = ''2021-05-01'',
                subscriptions = [''d'', ''a'', ''c''], unsubscriptions = [] \<rparr>)"
proof -
  have h: "\<not> num_less (Some 1619913600000) (availableSince no_other_format ''2021-05-01'')
   \<and> \<not> num_less (Some 1619999999000) (availableSince no_other_format ''2021-05-01'')
   \<and> fetched store_abcd ''SubscriptionsFeedByDay'' ''P-2021-05-01-S''
        = Inr (Set_of [''a'', ''b'', ''d''])
   \<and> fetched store_abcd_reordered ''SubscriptionsFeedByDay'' ''P-2021-05-01-S''
        = Inr (Set_of [''d'', ''b'', ''a''])
   \<and> members (Set_of [''a'', ''b'', ''d'']) = members (Set_of [''d'', ''b'', ''a''])
   \<and> fetched store_abcd ''SubscriptionsFeedByDay'' ''S-2021-05-01-svc-S''
        = Inr (Set_of [''b'', ''c''])
   \<and> fetched store_abcd_reordered ''SubscriptionsFeedByDay'' ''S-2021-05-01-svc-S''
        = Inr (Set_of [''c'', ''b''])
   \<and> members (Set_of [''b'', ''c'']) = members (Set_of [''c'', ''b''])
   \<and> fetched store_abcd ''SubscriptionsFeedByDay'' ''S-2021-05-01-svc-U'' = Inr (Set_of [''b''])
   \<and> fetched store_abcd_reordered ''SubscriptionsFeedByDay'' ''S-2021-05-01-svc-U''
        = Inr (Set_of [''b''])"
    by code_simp
  have r1: "fst (GetSubscriptionsFeedHandler no_other_format store_abcd ''SubscriptionsFeedByDay'' 1619913600000
            ''svc'' ''2021-05-01'')
       = Inr (ResponseSuccessJson \<lparr> dateUTC = ''2021-05-01'',
                subscriptions = [''a'', ''d'', ''c''], unsubscriptions = [] \<rparr>)"
    by code_simp
  have r2: "fst (GetSubscriptionsFeedHandler no_other_format store_abcd_reordered ''SubscriptionsFeedByDay''
            1619999999000 ''svc'' ''2021-05-01'')
       = Inr (ResponseSuccessJson \<lparr> dateUTC = ''2021-05-01'',
                subscriptions = [''d'', ''a'', ''c''], unsubscriptions = [] \<rparr>)"
    by code_simp
  have c0: "GetSubscriptionsFeedHandler no_other_format store_abcd ''SubscriptionsFeedByDay'' 1619913600000
         ''svc'' ''2021-05-01''
       = GetSubscriptionsFeedHandler no_other_format store_abcd ''SubscriptionsFeedByDay'' 1619999999000 ''svc''
           ''2021-05-01''"
    using h C9_rerun_same_feed [where other_formats = no_other_format and ?now1.0 = 1619913600000
        and D = "''2021-05-01''"
        and ?now2.0 = 1619999999000 and table = "''SubscriptionsFeedByDay''"
        and serviceId = "''svc''" and tableService = store_abcd]
    by blast
  have c: "\<exists>feed1 feed2.
          fst (GetSubscriptionsFeedHandler no_other_format store_abcd ''SubscriptionsFeedByDay'' 1619913600000
                 ''svc'' ''2021-05-01'') = Inr (ResponseSuccessJson feed1)
        \<and> fst (GetSubscriptionsFeedHandler no_other_format store_abcd_reordered ''SubscriptionsFeedByDay''
                 1619999999000 ''svc'' ''2021-05-01'') = Inr (ResponseSuccessJson feed2)
        \<and> dateUTC feed1 = dateUTC feed2
        \<and> set (subscriptions feed1) = set (subscriptions feed2)
        \<and> set (unsubscriptions feed1) = set (unsubscriptions feed2)"
    using h C9_rerun_same_feed [where other_formats = no_other_format and ?now1.0 = 1619913600000
        and D = "''2021-05-01''"
        and ?now2.0 = 1619999999000 and table = "''SubscriptionsFeedByDay''"
        and serviceId = "''svc''" and tableService = store_abcd
        and ?tableService1.0 = store_abcd and ?P1.0 = "Set_of [''a'', ''b'', ''d'']"
        and ?tableService2.0 = store_abcd_reordered and ?P2.0 = "Set_of [''d'', ''b'', ''a'']"
        and ?S1.0 = "Set_of [''b'', ''c'']" and ?S2.0 = "Set_of [''c'', ''b'']"
        and ?U1.0 = "Set_of [''b'']" and ?U2.0 = "Set_of [''b'']", simplified]
    by blast
  from h c0 c r1 r2 show ?thesis by blast
qed

text \<open>
  Claim C10. The unsubscriptions do not depend on the subscription events: two runs whose
  profile sets have the same members and whose unsubscription sets have the same members
  report the same users as unsubscribed, whatever the two subscription sets are; with the
  very same profile and unsubscription sets the two sequences are equal.
\<close>

theorem C10_unsubscriptions_independent_of_subscriptions:
  "unsubscriptions (feedJson D P S1 U) = unsubscriptions (feedJson D P S2 U)
   \<and> (\<not> num_less (Some now1) (availableSince other_formats D) \<and> \<not> num_less (Some now2) (availableSince other_formats D)
       \<and> fetched tableService1 table (''P-'' @ D @ ''-S'') = Inr P1
       \<and> fetched tableService2 table (''P-'' @ D @ ''-S'') = Inr P2
       \<and> members P1 = members P2
       \<and> fetched tableService1 table (''S-'' @ D @ ''-'' @ serviceId @ ''-S'') = Inr S1
       \<and> fetched tableService2 table (''S-'' @ D @ ''-'' @ serviceId @ ''-S'') = Inr S2
       \<and> fetched tableService1 table (''S-'' @ D @ ''-'' @ serviceId @ ''-U'') = Inr U1
       \<and> fetched tableService2 table (''S-'' @ D @ ''-'' @ serviceId @ ''-U'') = Inr U2
       \<and> members U1 = members U2 \<longrightarrow>
      (\<exists>feed1 feed2.
          fst (GetSubscriptionsFeedHandler other_formats tableService1 table now1 serviceId D)
            = Inr (ResponseSuccessJson feed1)
        \<and> fst (GetSubscriptionsFeedHandler other_formats tableService2 table now2 serviceId D)
            = Inr (ResponseSuccessJson feed2)
        \<and> set (unsubscriptions feed1) = set (unsubscriptions feed2)))"
proof (intro conjI impI)
  show "unsubscriptions (feedJson D P S1 U) = unsubscriptions (feedJson D P S2 U)"
    by (simp add: unsubscriptions_feedJson)
next
  assume h: "\<not> num_less (Some now1) (availableSince other_formats D) \<and> \<not> num_less (Some now2) (availableSince other_formats D)
       \<and> fetched tableService1 table (''P-'' @ D @ ''-S'') = Inr P1
       \<and> fetched tableService2 table (''P-'' @ D @ ''-S'') = Inr P2
       \<and> members P1 = members P2
       \<and> fetched tableService1 table (''S-'' @ D @ ''-'' @ serviceId @ ''-S'') = Inr S1
       \<and> fetched tableService2 table (''S-'' @ D @ ''-'' @ serviceId @ ''-S'') = Inr S2
       \<and> fetched tableService1 table (''S-'' @ D @ ''-'' @ serviceId @ ''-U'') = Inr U1
       \<and> fetched tableService2 table (''S-'' @ D @ ''-'' @ serviceId @ ''-U'') = Inr U2
       \<and> members U1 = members U2"
  then have 1: "fst (GetSubscriptionsFeedHandler other_formats tableService1 table now1 serviceId D)
            = Inr (ResponseSuccessJson (feedJson D P1 S1 U1))"
    by (simp add: handler_success)
  from h have 2: "fst (GetSubscriptionsFeedHandler other_formats tableService2 table now2 serviceId D)
            = Inr (ResponseSuccessJson (feedJson D P2 S2 U2))"
    by (simp add: handler_success)
  from h have 3: "set (unsubscriptions (feedJson D P1 S1 U1))
                    = set (unsubscriptions (feedJson D P2 S2 U2))"
    by (simp add: set_unsubscriptions_feedJson)
  from 1 2 3 show "\<exists>feed1 feed2.
          fst (GetSubscriptionsFeedHandler other_formats tableService1 table now1 serviceId D)
            = Inr (ResponseSuccessJson feed1)
        \<and> fst (GetSubscriptionsFeedHandler other_formats tableService2 table now2 serviceId D)
            = Inr (ResponseSuccessJson feed2)
        \<and> set (unsubscriptions feed1) = set (unsubscriptions feed2)"
    by blast
qed

theorem C10_unsubscriptions_independent_of_subscriptions_witness:
  "\<not> num_less (Some 1619913600000) (availableSince no_other_format ''2021-05-01'')
   \<and> fetched store_unsub_e ''SubscriptionsFeedByDay'' ''P-2021-05-01-S''
        = Inr (Set_of [''a'', ''b''])
   \<and> fetched store_unsub_e_other_subs ''SubscriptionsFeedByDay'' ''P-2021-05-01-S''
        = Inr (Set_of [''a'', ''b''])
   \<and> fetched store_unsub_e ''SubscriptionsFeedByDay'' ''S-2021-05-01-svc-S''
        = Inr (Set_of [''b'', ''c''])
   \<and> fetched store_unsub_e_other_subs ''SubscriptionsFeedByDay'' ''S-2021-05-01-svc-S''
        = Inr (Set_of [''x'', ''e'', ''a''])
   \<and> fetched store_unsub_e ''SubscriptionsFeedByDay'' ''S-2021-05-01-svc-U''
        = Inr (Set_of [''b'', ''e''])
   \<and> fetched store_unsub_e_other_subs ''SubscriptionsFeedByDay'' ''S-2021-05-01-svc-U''
        = Inr (Set_of [''b'', ''e''])
   \<and> (\<exists>feed1 feed2.
          fst (GetSubscriptionsFeedHandler no_other_format store_unsub_e ''SubscriptionsFeedByDay''
                 1619913600000 ''svc'' ''2021-05-01'') = Inr (ResponseSuccessJson feed1)
        \<and> fst (GetSubscriptionsFeedHandler no_other_format store_unsub_e_other_subs ''SubscriptionsFeedByDay''
                 1619913600000 ''svc'' ''2021-05-01'') = Inr (ResponseSuccessJson feed2)
        \<and> set (unsubscriptions feed1) = set (unsubscriptions feed2))
   \<and> fst (GetSubscriptionsFeedHandler no_other_format store_unsub_e ''SubscriptionsFeedByDay'' 1619913600000
            ''svc'' ''2021-05-01'')
       = Inr (ResponseSuccessJson \<lparr> dateUTC = ''2021-05-01'',
                subscriptions = [''a'', ''c''], unsubscriptions = [''e''] \<rparr>)
   \<and> fst (GetSubscriptionsFeedHandler no_other_format store_unsub_e_other_subs ''SubscriptionsFeedByDay''
            1619913600000 ''svc'' ''2021-05-01'')
       = Inr (ResponseSuccessJson \<lparr> dateUTC = ''2021-05-01'',
                subscriptions = [''a'', ''x'', ''e''], unsubscriptions = [''e''] \<rparr>)"
proof -
  have h: "\<not> num_less (Some 1619913600000) (availableSince no_other_format ''2021-05-01'')
   \<and> fetched store_unsub_e ''SubscriptionsFeedByDay'' ''P-2021-05-01-S''
        = Inr (Set_of [''a'', ''b''])
   \<and> fetched store_unsub_e_other_subs ''SubscriptionsFeedByDay'' ''P-2021-05-01-S''
        = Inr (Set_of [''a'', ''b''])
   \<and> fetched store_unsub_e ''SubscriptionsFeedByDay'' ''S-2021-05-01-svc-S''
        = Inr (Set_of [''b'', ''c''])
   \<and> fetched store_unsub_e_other_subs ''SubscriptionsFeedByDay'' ''S-2021-05-01-svc-S''
        = Inr (Set_of [''x'', ''e'', ''a''])
   \<and> fetched store_unsub_e ''SubscriptionsFeedByDay'' ''S-2021-05-01-svc-U''
        = Inr (Set_of [''b'', ''e''])
   \<and> fetched store_unsub_e_other_subs ''SubscriptionsFeedByDay'' ''S-2021-05-01-svc-U''
        = Inr (Set_of [''b'', ''e''])"
    by code_simp
  have r1: "fst (GetSubscriptionsFeedHandler no_other_format store_unsub_e ''SubscriptionsFeedByDay''
            1619913600000 ''svc'' ''2021-05-01'')
       = Inr (ResponseSuccessJson \<lparr> dateUTC = ''2021-05-01'',
                subscriptions = [''a'', ''c''], unsubscriptions = [''e''] \<rparr>)"
    by code_simp
  have r2: "fst (GetSubscriptionsFeedHandler no_other_format store_unsub_e_other_subs ''SubscriptionsFeedByDay''
            1619913600000 ''svc'' ''2021-05-01'')
       = Inr (ResponseSuccessJson \<lparr> dateUTC = ''2021-05-01'',
                subscriptions = [''a'', ''x'', ''e''], unsubscriptions = [''e''] \<rparr>)"
    by code_simp
  have c: "\<exists>feed1 feed2.
          fst (GetSubscriptionsFeedHandler no_other_format store_unsub_e ''SubscriptionsFeedByDay''
                 1619913600000 ''svc'' ''2021-05-01'') = Inr (ResponseSuccessJson feed1)
        \<and> fst (GetSubscriptionsFeedHandler no_other_format store_unsub_e_other_subs ''SubscriptionsFeedByDay''
                 1619913600000 ''svc'' ''2021-05-01'') = Inr (ResponseSuccessJson feed2)
        \<and> set (unsubscriptions feed1) = set (unsubscriptions feed2)"
    using h C10_unsubscriptions_independent_of_subscriptions
       [where other_formats = no_other_format and ?now1.0 = 1619913600000
        and D = "''2021-05-01''"
        and ?now2.0 = 1619913600000 and table = "''SubscriptionsFeedByDay''"
        and serviceId = "''svc''"
        and ?tableService1.0 = store_unsub_e and ?P1.0 = "Set_of [''a'', ''b'']"
        and ?tableService2.0 = store_unsub_e_other_subs and ?P2.0 = "Set_of [''a'', ''b'']"
        and ?S1.0 = "Set_of [''b'', ''c'']" and ?S2.0 = "Set_of [''x'', ''e'', ''a'']"
        and ?U1.0 = "Set_of [''b'', ''e'']" and ?U2.0 = "Set_of [''b'', ''e'']"
        and P = "Set_of [''a'', ''b'']" and U = "Set_of [''b'', ''e'']", simplified]
    by blast
  from h c r1 r2 show ?thesis by blast
qed

end
